theory Spec2Isabelle
  imports Complex_Main "HOL-Library.Word" "HOL-Library.Multiset"
begin

section \<open>Single-precision values\<close>

text \<open>
  The program computes in \<^verbatim>\<open>f32\<close> (C++ \<^verbatim>\<open>float\<close>). A value is a finite number, one of
  the two infinities, or a NaN. Finite arithmetic is exact here: rounding to 24 bits,
  overflow to an infinity and the sign of zero are left out, so every theorem below about
  finite values is a theorem about the program's formulas over the reals (the two places
  where the rounding is modelled are named in the next subsection). What is kept is
  what the program's control flow depends on: a division by zero gives an infinity or a
  NaN, arithmetic on them follows IEEE 754, and every comparison with a NaN is false.
\<close>

datatype f32 = Fin real | PInf | NInf | NaN

fun is_fin :: "f32 \<Rightarrow> bool" where
  "is_fin (Fin r) = True"
| "is_fin PInf = False"
| "is_fin NInf = False"
| "is_fin NaN = False"

fun re :: "f32 \<Rightarrow> real" where
  "re (Fin r) = r"
| "re PInf = 0"
| "re NInf = 0"
| "re NaN = 0"

text \<open>The sign of a value that is not a NaN, and the infinity (or NaN) with a given sign.\<close>

fun sign_of :: "f32 \<Rightarrow> real" where
  "sign_of (Fin r) = sgn r"
| "sign_of PInf = 1"
| "sign_of NInf = - 1"
| "sign_of NaN = 0"

definition inf_of :: "real \<Rightarrow> f32" where
  "inf_of s = (if s = 0 then NaN else if 0 < s then PInf else NInf)"

instantiation f32 :: "{plus, minus, uminus, times, inverse, ord}"
begin

fun uminus_f32 :: "f32 \<Rightarrow> f32" where
  "uminus_f32 (Fin r) = Fin (- r)"
| "uminus_f32 PInf = NInf"
| "uminus_f32 NInf = PInf"
| "uminus_f32 NaN = NaN"

fun plus_f32 :: "f32 \<Rightarrow> f32 \<Rightarrow> f32" where
  "plus_f32 (Fin r) (Fin s) = Fin (r + s)"
| "plus_f32 NaN _ = NaN"
| "plus_f32 _ NaN = NaN"
| "plus_f32 PInf NInf = NaN"
| "plus_f32 NInf PInf = NaN"
| "plus_f32 PInf _ = PInf"
| "plus_f32 _ PInf = PInf"
| "plus_f32 NInf _ = NInf"
| "plus_f32 _ NInf = NInf"

definition minus_f32 :: "f32 \<Rightarrow> f32 \<Rightarrow> f32" where
  "minus_f32 p q = p + (- q)"

fun times_f32 :: "f32 \<Rightarrow> f32 \<Rightarrow> f32" where
  "times_f32 (Fin r) (Fin s) = Fin (r * s)"
| "times_f32 NaN _ = NaN"
| "times_f32 _ NaN = NaN"
| "times_f32 p q = inf_of (sign_of p * sign_of q)"

text \<open>
  A finite value divided by zero is an infinity with the sign of the dividend, and
  \<open>0 / 0\<close> is a NaN. (With signed zeros the infinity could have the other sign; nothing
  below depends on which infinity it is.)
\<close>

fun divide_f32 :: "f32 \<Rightarrow> f32 \<Rightarrow> f32" where
  "divide_f32 (Fin r) (Fin s) = (if s = 0 then inf_of (sgn r) else Fin (r / s))"
| "divide_f32 NaN _ = NaN"
| "divide_f32 _ NaN = NaN"
| "divide_f32 (Fin r) _ = Fin 0"
| "divide_f32 p (Fin s) = inf_of (sign_of p * (if s < 0 then - 1 else 1))"
| "divide_f32 _ _ = NaN"

definition inverse_f32 :: "f32 \<Rightarrow> f32" where
  "inverse_f32 p = divide (Fin 1) p"

fun less_f32 :: "f32 \<Rightarrow> f32 \<Rightarrow> bool" where
  "less_f32 (Fin r) (Fin s) = (r < s)"
| "less_f32 NaN _ = False"
| "less_f32 _ NaN = False"
| "less_f32 NInf (Fin s) = True"
| "less_f32 NInf PInf = True"
| "less_f32 (Fin r) PInf = True"
| "less_f32 _ _ = False"

fun less_eq_f32 :: "f32 \<Rightarrow> f32 \<Rightarrow> bool" where
  "less_eq_f32 (Fin r) (Fin s) = (r \<le> s)"
| "less_eq_f32 NaN _ = False"
| "less_eq_f32 _ NaN = False"
| "less_eq_f32 NInf _ = True"
| "less_eq_f32 _ PInf = True"
| "less_eq_f32 _ _ = False"

instance ..

end

text \<open>The library functions \<^verbatim>\<open>sqrtf\<close>, \<^verbatim>\<open>cosf\<close>, \<^verbatim>\<open>sinf\<close>, \<^verbatim>\<open>tanf\<close> on these values.\<close>

fun sqrtf :: "f32 \<Rightarrow> f32" where
  "sqrtf (Fin r) = (if r < 0 then NaN else Fin (sqrt r))"
| "sqrtf PInf = PInf"
| "sqrtf NInf = NaN"
| "sqrtf NaN = NaN"

fun cosf :: "f32 \<Rightarrow> f32" where
  "cosf (Fin r) = Fin (cos r)"
| "cosf _ = NaN"

fun sinf :: "f32 \<Rightarrow> f32" where
  "sinf (Fin r) = Fin (sin r)"
| "sinf _ = NaN"

fun tanf :: "f32 \<Rightarrow> f32" where
  "tanf (Fin r) = Fin (tan r)"
| "tanf _ = NaN"

subsection \<open>Rounding\<close>

text \<open>
  Where a theorem depends on the rounding itself, the result of an operation is rounded as
  the program stores it: \<open>round32\<close> is IEEE 754 single precision and \<open>round64\<close> double
  precision, round to nearest, ties to even (for results in the normal range; overflow and
  subnormal numbers are left out). This is done in two places: the angle of the vertex
  loop of \<^verbatim>\<open>Pillar\<close>, on which the number of vertices depends, and the movement code of
  \<^verbatim>\<open>onUpdate\<close>.
\<close>

definition rne :: "real \<Rightarrow> int" where
  "rne x =
     (let f = \<lfloor>x\<rfloor>; r = x - of_int f
      in if r < 1 / 2 then f else if 1 / 2 < r then f + 1 else if even f then f else f + 1)"

definition round32 :: "real \<Rightarrow> real" where
  "round32 x =
     (if x = 0 then 0
      else let e = \<lfloor>log 2 \<bar>x\<bar>\<rfloor> - 23
           in of_int (rne (x / 2 powr (of_int e))) * 2 powr (of_int e))"

definition round64 :: "real \<Rightarrow> real" where
  "round64 x =
     (if x = 0 then 0
      else let e = \<lfloor>log 2 \<bar>x\<bar>\<rfloor> - 52
           in of_int (rne (x / 2 powr (of_int e))) * 2 powr (of_int e))"

section \<open>Vectors\<close>

record Vec3 =
  vx :: f32
  vy :: f32
  vz :: f32

text \<open>The three constructors of \<^verbatim>\<open>Vec3\<close>: from components, from an angle, and the zero vector.\<close>

definition Vec3_xyz :: "f32 \<Rightarrow> f32 \<Rightarrow> f32 \<Rightarrow> Vec3" where
  "Vec3_xyz x y z = \<lparr>vx = x, vy = y, vz = z\<rparr>"

definition Vec3_angle :: "f32 \<Rightarrow> f32 \<Rightarrow> Vec3" where
  "Vec3_angle angle z = \<lparr>vx = cosf angle, vy = sinf angle, vz = z\<rparr>"

definition Vec3_zero :: "Vec3" where
  "Vec3_zero = \<lparr>vx = Fin 0, vy = Fin 0, vz = Fin 0\<rparr>"

definition dot :: "Vec3 \<Rightarrow> Vec3 \<Rightarrow> f32" where
  "dot p q = vx p * vx q + vy p * vy q + vz p * vz q"

definition cross :: "Vec3 \<Rightarrow> Vec3 \<Rightarrow> Vec3" where
  "cross p q = Vec3_xyz (vy p * vz q - vz p * vy q) (vz p * vx q - vx p * vz q)
                        (vx p * vy q - vy p * vx q)"

definition vlength :: "Vec3 \<Rightarrow> f32" where
  "vlength p = sqrtf (dot p p)"

definition vadd :: "Vec3 \<Rightarrow> Vec3 \<Rightarrow> Vec3" where
  "vadd p q = Vec3_xyz (vx p + vx q) (vy p + vy q) (vz p + vz q)"

definition vsub :: "Vec3 \<Rightarrow> Vec3 \<Rightarrow> Vec3" where
  "vsub p q = Vec3_xyz (vx p - vx q) (vy p - vy q) (vz p - vz q)"

definition vmul :: "Vec3 \<Rightarrow> Vec3 \<Rightarrow> Vec3" where
  "vmul p q = Vec3_xyz (vx p * vx q) (vy p * vy q) (vz p * vz q)"

definition vscale :: "Vec3 \<Rightarrow> f32 \<Rightarrow> Vec3" where
  "vscale p s = Vec3_xyz (vx p * s) (vy p * s) (vz p * s)"

definition vdiv :: "Vec3 \<Rightarrow> f32 \<Rightarrow> Vec3" where
  "vdiv p s = Vec3_xyz (vx p / s) (vy p / s) (vz p / s)"

definition normalized :: "Vec3 \<Rightarrow> Vec3" where
  "normalized p = vdiv p (vlength p)"

definition rotateZ :: "Vec3 \<Rightarrow> f32 \<Rightarrow> Vec3" where
  "rotateZ p angle =
     (let s = sinf angle; c = cosf angle;
          rx = vx p * c - vy p * s;
          ry = vx p * s + vy p * c
      in Vec3_xyz rx ry (vz p))"

definition lerp :: "Vec3 \<Rightarrow> Vec3 \<Rightarrow> f32 \<Rightarrow> Vec3" where
  "lerp p to fac = vadd (vscale p (Fin 1 - fac)) (vscale to fac)"

text \<open>A vector of three finite components.\<close>

definition vec :: "real \<Rightarrow> real \<Rightarrow> real \<Rightarrow> Vec3" where
  "vec x y z = \<lparr>vx = Fin x, vy = Fin y, vz = Fin z\<rparr>"

definition fin_vec :: "Vec3 \<Rightarrow> bool" where
  "fin_vec p = (is_fin (vx p) \<and> is_fin (vy p) \<and> is_fin (vz p))"

section \<open>Ray against segment\<close>

text \<open>
  \<^verbatim>\<open>raySeg\<close> writes its four results through references and returns whether it hit; the
  model returns them as a record, and \<open>None\<close> for no hit. The two quotients \<^verbatim>\<open>t1\<close> and
  \<^verbatim>\<open>t2\<close> are computed before the test, whatever the divisor \<^verbatim>\<open>d23\<close> is.
  The normal is built by \<^verbatim>\<open>Vec3(-v2.y, v2.x)\<close>: with two arguments that is the
  constructor from an angle and a z value.
\<close>

record RayHit =
  rh_hit :: Vec3
  rh_norm :: Vec3
  rh_t :: f32
  rh_u :: f32

definition raySeg_d23 :: "Vec3 \<Rightarrow> Vec3 \<Rightarrow> Vec3 \<Rightarrow> Vec3 \<Rightarrow> f32" where
  "raySeg_d23 o' d a b =
     (let v2 = vsub b a; v3 = Vec3_xyz (- vy d) (vx d) (Fin 0) in dot v2 v3)"

definition raySeg_t1 :: "Vec3 \<Rightarrow> Vec3 \<Rightarrow> Vec3 \<Rightarrow> Vec3 \<Rightarrow> f32" where
  "raySeg_t1 o' d a b =
     (let v1 = vsub o' a; v2 = vsub b a in vz (cross v2 v1) / raySeg_d23 o' d a b)"

definition raySeg_t2 :: "Vec3 \<Rightarrow> Vec3 \<Rightarrow> Vec3 \<Rightarrow> Vec3 \<Rightarrow> f32" where
  "raySeg_t2 o' d a b =
     (let v1 = vsub o' a; v3 = Vec3_xyz (- vy d) (vx d) (Fin 0)
      in dot v1 v3 / raySeg_d23 o' d a b)"

definition raySeg :: "Vec3 \<Rightarrow> Vec3 \<Rightarrow> Vec3 \<Rightarrow> Vec3 \<Rightarrow> RayHit option" where
  "raySeg o' d a b =
     (let v2 = vsub b a;
          t1 = raySeg_t1 o' d a b;
          t2 = raySeg_t2 o' d a b
      in if Fin 0 \<le> t1 \<and> Fin 0 \<le> t2 \<and> t2 \<le> Fin 1
         then Some \<lparr>rh_hit = Vec3_xyz (vx a + vx v2 * t2) (vy a + vy v2 * t2) (Fin 0),
                    rh_norm = Vec3_angle (- vy v2) (vx v2),
                    rh_t = t1,
                    rh_u = t2\<rparr>
         else None)"

definition blockSize :: "f32" where
  "blockSize = Fin 8"

definition maxDepth :: "f32" where
  "maxDepth = Fin 60"

section \<open>Textures\<close>

text \<open>
  \<^verbatim>\<open>u32\<close> values are 32-bit words. Converting a \<^verbatim>\<open>u32\<close> to \<^verbatim>\<open>f32\<close> gives its value.
  Converting an \<^verbatim>\<open>f32\<close> to \<^verbatim>\<open>u32\<close> is defined by the language only when the truncated
  value lies in \<open>0 .. 2^32 - 1\<close>; what a platform produces otherwise (for a negative
  value, an infinity, a NaN) is the parameter \<open>oor\<close> of the model.
\<close>

type_synonym u8 = "8 word"
type_synonym u32 = "32 word"

definition of_u32 :: "u32 \<Rightarrow> f32" where
  "of_u32 n = Fin (real (unat n))"

definition of_u8 :: "u8 \<Rightarrow> f32" where
  "of_u8 n = Fin (real (unat n))"

definition floor_to_u32 :: "(f32 \<Rightarrow> u32) \<Rightarrow> f32 \<Rightarrow> u32" where
  "floor_to_u32 oor p =
     (case p of
        Fin r \<Rightarrow> if 0 \<le> \<lfloor>r\<rfloor> \<and> \<lfloor>r\<rfloor> < 2 ^ 32 then word_of_int \<lfloor>r\<rfloor> else oor p
      | _ \<Rightarrow> oor p)"

record Texture =
  m_width :: u32
  m_height :: u32
  m_pixels :: "u8 list"

text \<open>The default-constructed texture, also the outcome of a failed decode.\<close>

definition Texture_default :: "Texture" where
  "Texture_default = \<lparr>m_width = 0, m_height = 0, m_pixels = []\<rparr>"

text \<open>
  One channel read \<^verbatim>\<open>f32(m_pixels[i]) / 255.0f\<close>. A read past the end of the buffer has
  no defined result in the program; the model returns \<open>None\<close> for it.
\<close>

definition channel :: "Texture \<Rightarrow> u32 \<Rightarrow> f32 option" where
  "channel t i =
     (if unat i < length (m_pixels t) then Some (of_u8 (m_pixels t ! unat i) / Fin 255)
      else None)"

definition get :: "Texture \<Rightarrow> u32 \<Rightarrow> u32 \<Rightarrow> Vec3 option" where
  "get t x y =
     (if m_width t = 0 \<or> m_height t = 0 then Some (Vec3_xyz (Fin 1) (Fin 0) (Fin 1))
      else
        let x1 = x mod m_width t;
            y1 = y mod m_height t;
            uvi = (x1 + y1 * m_width t) * 3
        in case (channel t (uvi + 0), channel t (uvi + 1), channel t (uvi + 2)) of
             (Some r, Some g, Some b) \<Rightarrow> Some (Vec3_xyz r g b)
           | _ \<Rightarrow> None)"

definition sample :: "(f32 \<Rightarrow> u32) \<Rightarrow> Texture \<Rightarrow> f32 \<Rightarrow> f32 \<Rightarrow> Vec3 option" where
  "sample oor t u v =
     (let u1 = u * of_u32 (m_width t);
          v1 = v * of_u32 (m_height t);
          x = floor_to_u32 oor u1;
          y = floor_to_u32 oor v1;
          ur = u1 - of_u32 x;
          vr = v1 - of_u32 y;
          uo = Fin 1 - ur;
          vo = Fin 1 - vr
      in case (get t x y, get t (x + 1) y, get t x (y + 1), get t (x + 1) (y + 1)) of
           (Some c00, Some c10, Some c01, Some c11) \<Rightarrow>
             Some (vadd (vscale (vadd (vscale c00 uo) (vscale c10 ur)) vo)
                        (vscale (vadd (vscale c01 uo) (vscale c11 ur)) vr))
         | _ \<Rightarrow> None)"

text \<open>A texture as the constructor leaves it after a successful decode: three bytes per pixel.\<close>

definition tex_wf :: "Texture \<Rightarrow> bool" where
  "tex_wf t =
     (length (m_pixels t) = unat (m_width t) * unat (m_height t) * 3 \<and>
      unat (m_width t) * unat (m_height t) * 3 < 2 ^ 31)"

section \<open>Lines, hits and models\<close>

record Line =
  ln_a :: Vec3
  ln_b :: Vec3
  ln_u0 :: f32
  ln_u1 :: f32
  ln_texture :: Texture

definition uv :: "Line \<Rightarrow> f32 \<Rightarrow> f32" where
  "uv l t = (Fin 1 - t) * ln_u0 l + ln_u1 l * t"

text \<open>\<^verbatim>\<open>HitInfo::line\<close> points into the frame's line list; the model keeps the index.\<close>

record HitInfo =
  hi_line :: nat
  hi_position :: Vec3
  hi_normal :: Vec3
  hi_distance :: f32
  hi_u :: f32
  hi_length :: f32

record Object =
  position :: Vec3
  rotation :: f32

record Viewer = Object +
  fov :: f32

record Vert =
  vert_pos :: Vec3
  vert_u :: f32

record Model = Object +
  texture :: Texture
  vertices :: "Vert list"
  indices :: "nat list"

definition Model_new :: "Model" where
  "Model_new = \<lparr>position = Vec3_xyz (Fin 0) (Fin 0) (Fin 0), rotation = Fin 0,
                 texture = Texture_default, vertices = [], indices = []\<rparr>"

definition addVert :: "Vec3 \<Rightarrow> f32 \<Rightarrow> Model \<Rightarrow> Model" where
  "addVert p u m = m\<lparr>vertices := vertices m @ [\<lparr>vert_pos = p, vert_u = u\<rparr>]\<rparr>"

definition addIndex :: "nat \<Rightarrow> Model \<Rightarrow> Model" where
  "addIndex i m = m\<lparr>indices := indices m @ [i]\<rparr>"

definition set_position_xy :: "f32 \<Rightarrow> f32 \<Rightarrow> Model \<Rightarrow> Model" where
  "set_position_xy x y m = m\<lparr>position := (position m)\<lparr>vx := x, vy := y\<rparr>\<rparr>"

subsection \<open>The rectangle\<close>

definition Block :: "f32 \<Rightarrow> f32 \<Rightarrow> f32 \<Rightarrow> f32 \<Rightarrow> Model" where
  "Block x y w h =
     (let u1 = w * Fin 2;
          u2 = h * Fin 2;
          z = Fin 0
      in (addIndex 7 \<circ> addIndex 6 \<circ> addIndex 5 \<circ> addIndex 4 \<circ>
          addIndex 3 \<circ> addIndex 2 \<circ> addIndex 1 \<circ> addIndex 0 \<circ>
          addVert (Vec3_xyz z z z) u2 \<circ>
          addVert (Vec3_xyz z h z) z \<circ>
          addVert (Vec3_xyz z h z) u1 \<circ>
          addVert (Vec3_xyz w h z) z \<circ>
          addVert (Vec3_xyz w h z) u2 \<circ>
          addVert (Vec3_xyz w z z) z \<circ>
          addVert (Vec3_xyz w z z) u1 \<circ>
          addVert (Vec3_xyz z z z) z \<circ>
          set_position_xy x y) Model_new)"

subsection \<open>The pillar\<close>

text \<open>
  \<^verbatim>\<open>M_PI\<close> is the constant of the C library header, a \<^verbatim>\<open>double\<close>: the literal rounded to
  double precision. \<^verbatim>\<open>M_PI * 2.0f\<close> is computed in \<^verbatim>\<open>double\<close> and is exact.
\<close>

definition M_PI :: "real" where
  "M_PI = round64 3.14159265358979323846"

definition pillar_segments :: "nat" where
  "pillar_segments = 12"

text \<open>
  \<^verbatim>\<open>const f32 step = (M_PI * 2.0f) / segments\<close>: the quotient is computed in \<^verbatim>\<open>double\<close> and
  stored in an \<^verbatim>\<open>f32\<close>.
\<close>

definition pillar_step :: "real" where
  "pillar_step = round32 (round64 ((M_PI * 2) / real pillar_segments))"

text \<open>
  The vertex loop \<^verbatim>\<open>for (f32 a = 0.0f; a < M_PI * 2.0f; a += step)\<close>. The angle \<^verbatim>\<open>a\<close> is an
  \<^verbatim>\<open>f32\<close>: each sum \<^verbatim>\<open>a + step\<close> is rounded to single precision, and the comparison with the
  \<^verbatim>\<open>double\<close> bound is exact. The number of vertices depends on these roundings, so they are
  modelled; the coordinates of the vertices and \<^verbatim>\<open>u\<close> are computed exactly, as everywhere
  else. The loop need not end for every start angle (a sum can round back to \<^verbatim>\<open>a\<close>), so
  the result is an option and \<open>None\<close> is a loop that does not end; from the start angle
  0 of the program it ends after 13 vertices (lemma \<open>pillar_verts_from_zero\<close>).
\<close>

partial_function (option) pillar_verts ::
  "f32 \<Rightarrow> f32 \<Rightarrow> f32 \<Rightarrow> f32 \<Rightarrow> real \<Rightarrow> f32 \<Rightarrow> Model \<Rightarrow> Model option" where
  "pillar_verts x y radius ustep a u m =
     (if a < M_PI * 2
      then pillar_verts x y radius ustep (round32 (a + pillar_step)) (u + ustep)
             (addVert (Vec3_xyz (cosf (Fin a) * radius + x) (sinf (Fin a) * radius + y) (Fin 0)) u m)
      else Some m)"

text \<open>The index loop \<^verbatim>\<open>for (i = 0; i < segments - 1; i++)\<close> adds the pair \<open>i, i + 1\<close>.\<close>

definition pillar_indices :: "nat \<Rightarrow> Model \<Rightarrow> Model" where
  "pillar_indices n m = fold (\<lambda>i. addIndex (i + 1) \<circ> addIndex i) [0..<n] m"

definition Pillar :: "f32 \<Rightarrow> f32 \<Rightarrow> f32 \<Rightarrow> Model option" where
  "Pillar x y radius =
     (let maxu = Fin (M_PI * 2) * radius;
          ustep = maxu / Fin (real pillar_segments / 2)
      in case pillar_verts x y radius ustep 0 (Fin 0) (set_position_xy x y Model_new) of
           None \<Rightarrow> None
         | Some m1 \<Rightarrow>
             (let m2 = pillar_indices (pillar_segments - 1) m1
              in Some (addIndex (pillar_segments - 1) (addIndex 0 m2))))"

section \<open>The game\<close>

record RayCastGame =
  viewer :: Viewer
  models :: "Model list"
  lines :: "Line list"
  twall :: Texture
  tfloor :: Texture
  tceil :: Texture
  tpillar :: Texture

subsection \<open>Flattening the models into lines\<close>

text \<open>
  The loop of \<^verbatim>\<open>onDraw\<close> over \<^verbatim>\<open>model->indices\<close> in steps of two. Reading an index or a
  vertex that does not exist has no defined result in the program: \<open>None\<close>.
\<close>

fun model_lines :: "Model \<Rightarrow> nat list \<Rightarrow> Line list option" where
  "model_lines m [] = Some []"
| "model_lines m [i] = None"
| "model_lines m (i # j # rest) =
     (if i < length (vertices m) \<and> j < length (vertices m)
      then let va = vertices m ! i;
               vb = vertices m ! j;
               l = \<lparr>ln_a = vadd (vert_pos va) (position m),
                    ln_b = vadd (vert_pos vb) (position m),
                    ln_u0 = vert_u va,
                    ln_u1 = vert_u vb,
                    ln_texture = texture m\<rparr>
           in map_option (\<lambda>ls. l # ls) (model_lines m rest)
      else None)"

fun create_lines :: "Model list \<Rightarrow> Line list option" where
  "create_lines [] = Some []"
| "create_lines (m # ms) =
     (case model_lines m (indices m) of
        None \<Rightarrow> None
      | Some ls \<Rightarrow> map_option (\<lambda>rest. ls @ rest) (create_lines ms))"

subsection \<open>Nearest hit of a ray\<close>

text \<open>
  \<^verbatim>\<open>rayLines\<close> collects the hits in index order, sorts them with \<^verbatim>\<open>std::sort\<close> by
  distance and returns the first. \<^verbatim>\<open>std::sort\<close> promises a permutation ordered by the
  comparison and nothing about the order of equal elements; the sort is the parameter
  \<open>srt\<close> of the model, and \<open>std_sort\<close> is that promise (made for lists whose distances are
  finite, on which the comparison is a strict weak order).
\<close>

type_synonym IDist = "nat \<times> HitInfo"

definition line_hit :: "Line list \<Rightarrow> Vec3 \<Rightarrow> Vec3 \<Rightarrow> nat \<Rightarrow> IDist list" where
  "line_hit ls o' d i =
     (let a = vscale (ln_a (ls ! i)) blockSize;
          b = vscale (ln_b (ls ! i)) blockSize
      in case raySeg o' d a b of
           None \<Rightarrow> []
         | Some h \<Rightarrow>
             [(i, \<lparr>hi_line = i,
                   hi_position = rh_hit h,
                   hi_normal = rh_norm h,
                   hi_distance = rh_t h,
                   hi_u = rh_u h,
                   hi_length = vlength (vsub b a) / blockSize * Fin 2\<rparr>)])"

definition rayLines_md :: "Line list \<Rightarrow> Vec3 \<Rightarrow> Vec3 \<Rightarrow> IDist list" where
  "rayLines_md ls o' d = concat (map (line_hit ls o' d) [0..<length ls])"

definition rayLines :: "(IDist list \<Rightarrow> IDist list) \<Rightarrow> Line list \<Rightarrow> Vec3 \<Rightarrow> Vec3 \<Rightarrow> HitInfo option" where
  "rayLines srt ls o' d =
     (case srt (rayLines_md ls o' d) of
        [] \<Rightarrow> None
      | m # _ \<Rightarrow> Some (snd m))"

definition std_sort :: "(IDist list \<Rightarrow> IDist list) \<Rightarrow> bool" where
  "std_sort srt =
     (\<forall>md. (\<forall>m \<in> set md. is_fin (hi_distance (snd m))) \<longrightarrow>
        mset (srt md) = mset md \<and>
        sorted_wrt (\<lambda>p q. \<not> hi_distance (snd q) < hi_distance (snd p)) (srt md))"

text \<open>An insertion sort by distance, one function that keeps the promise.\<close>

fun insert_by_distance :: "IDist \<Rightarrow> IDist list \<Rightarrow> IDist list" where
  "insert_by_distance m [] = [m]"
| "insert_by_distance m (p # ps) =
     (if hi_distance (snd p) < hi_distance (snd m) then p # insert_by_distance m ps
      else m # p # ps)"

definition sort_by_distance :: "IDist list \<Rightarrow> IDist list" where
  "sort_by_distance md = foldr insert_by_distance md []"

subsection \<open>Collision\<close>

definition closestPoint :: "Vec3 \<Rightarrow> Vec3 \<Rightarrow> Vec3 \<Rightarrow> Vec3 \<times> f32" where
  "closestPoint a b p =
     (let ap = vsub p a;
          ab = vsub b a;
          atb = dot ab ab;
          apab = dot ap ab;
          t = apab / atb
      in (vadd a (vscale ab t), t))"

fun circleLines :: "Line list \<Rightarrow> Vec3 \<Rightarrow> f32 \<Rightarrow> bool" where
  "circleLines [] o' radius = False"
| "circleLines (l # ls) o' radius =
     (let (p, t) = closestPoint (vscale (ln_a l) blockSize) (vscale (ln_b l) blockSize) o'
      in if Fin 0 \<le> t \<and> t \<le> Fin 1 \<and> vlength (vsub p o') < radius then True
         else circleLines ls o' radius)"

subsection \<open>The update step\<close>

datatype key = SDLK_x | SDLK_z | SDLK_LEFT | SDLK_RIGHT | SDLK_UP | SDLK_DOWN

text \<open>The macro \<^verbatim>\<open>rad(x)\<close> is \<^verbatim>\<open>(x * 0.0174533f)\<close>.\<close>

definition rad :: "real \<Rightarrow> f32" where
  "rad x = Fin x * Fin 0.0174533"

definition update_fov :: "(key \<Rightarrow> bool) \<Rightarrow> f32 \<Rightarrow> Viewer \<Rightarrow> Viewer" where
  "update_fov isHeld dt v =
     (if isHeld SDLK_x then
        (let v1 = v\<lparr>fov := fov v + dt\<rparr>
         in if rad 120 \<le> fov v1 then v1\<lparr>fov := rad 120\<rparr> else v1)
      else if isHeld SDLK_z then
        (let v1 = v\<lparr>fov := fov v - dt\<rparr>
         in if fov v1 \<le> rad 20 then v1\<lparr>fov := rad 20\<rparr> else v1)
      else v)"

definition update_rotation :: "(key \<Rightarrow> bool) \<Rightarrow> f32 \<Rightarrow> Viewer \<Rightarrow> Viewer" where
  "update_rotation isHeld dt v =
     (if isHeld SDLK_LEFT then v\<lparr>rotation := rotation v - dt * Fin 1.8\<rparr>
      else if isHeld SDLK_RIGHT then v\<lparr>rotation := rotation v + dt * Fin 1.8\<rparr>
      else v)"

definition update_position :: "(key \<Rightarrow> bool) \<Rightarrow> f32 \<Rightarrow> Line list \<Rightarrow> Viewer \<Rightarrow> Viewer" where
  "update_position isHeld dt ls v =
     (let dir = Vec3_angle (rotation v) (Fin 0) in
      if isHeld SDLK_UP then
        (let delta = vscale (vscale dir dt) (Fin 4);
             v1 = v\<lparr>position := vadd (position v) delta\<rparr>
         in if circleLines ls (position v1) (Fin 0.8)
            then v1\<lparr>position := vsub (position v1) delta\<rparr> else v1)
      else if isHeld SDLK_DOWN then
        (let delta = vscale (vscale dir dt) (Fin 4);
             v1 = v\<lparr>position := vsub (position v) delta\<rparr>
         in if circleLines ls (position v1) (Fin 0.8)
            then v1\<lparr>position := vadd (position v1) delta\<rparr> else v1)
      else v)"

definition onUpdate :: "(key \<Rightarrow> bool) \<Rightarrow> f32 \<Rightarrow> RayCastGame \<Rightarrow> RayCastGame" where
  "onUpdate isHeld dt g =
     g\<lparr>viewer := update_position isHeld dt (lines g)
                    (update_rotation isHeld dt (update_fov isHeld dt (viewer g)))\<rparr>"

subsection \<open>Drawing one column\<close>

text \<open>
  The canvas is seen through its size (\<^verbatim>\<open>width()\<close>, \<^verbatim>\<open>height()\<close>) and through the
  \<^verbatim>\<open>put\<close> calls made on it, which the model returns as a list in the order made.
  A texture read outside its buffer makes the result \<open>None\<close>.
\<close>

record PutCall =
  put_x :: nat
  put_y :: nat
  put_c :: Vec3

definition of_nat32 :: "nat \<Rightarrow> f32" where
  "of_nat32 n = Fin (real n)"

text \<open>\<^verbatim>\<open>std::min(a, b)\<close> returns \<^verbatim>\<open>b\<close> when \<^verbatim>\<open>b < a\<close> and \<^verbatim>\<open>a\<close> otherwise.\<close>

definition std_min :: "f32 \<Rightarrow> f32 \<Rightarrow> f32" where
  "std_min a b = (if b < a then b else a)"

definition view_thf :: "Viewer \<Rightarrow> f32" where
  "view_thf v = tanf (fov v / Fin 2)"

definition column_ray :: "Viewer \<Rightarrow> nat \<Rightarrow> nat \<Rightarrow> Vec3" where
  "column_ray v W x =
     (let thf = view_thf v;
          plane = rotateZ (Vec3_xyz (Fin 0) thf (Fin 0)) (rotation v);
          xf = (of_nat32 x / of_nat32 W) * Fin 2 - Fin 1
      in Vec3_xyz (cosf (rotation v) + vx plane * xf) (sinf (rotation v) + vy plane * xf) (Fin 0))"

definition wall_d :: "f32 \<Rightarrow> HitInfo \<Rightarrow> f32" where
  "wall_d thf info = hi_distance info * thf"

definition wall_fog :: "f32 \<Rightarrow> HitInfo \<Rightarrow> f32" where
  "wall_fog thf info = Fin 1 - (wall_d thf info / maxDepth)"

definition shade_pixel ::
  "(f32 \<Rightarrow> u32) \<Rightarrow> RayCastGame \<Rightarrow> nat \<Rightarrow> f32 \<Rightarrow> HitInfo \<Rightarrow> nat \<Rightarrow> Vec3 option" where
  "shade_pixel oor g H thf info y =
     (let h2 = of_nat32 (H div 2);
          d = wall_d thf info;
          ceil = h2 - of_nat32 H / d;
          floor = of_nat32 H - ceil;
          wh = floor - ceil;
          fog = wall_fog thf info;
          fwx = vx (hi_position info);
          fwy = vy (hi_position info);
          l = lines g ! hi_line info
      in if of_nat32 y \<le> ceil then
           (let dist = of_nat32 H / (of_nat32 (H - y) - h2);
                we = dist / d;
                cfog = std_min ((h2 - of_nat32 y) / maxDepth) (Fin 1);
                fu = (we * fwx + (Fin 1 - we) * vx (position (viewer g))) / Fin 2;
                fv = (we * fwy + (Fin 1 - we) * vy (position (viewer g))) / Fin 2
            in map_option (\<lambda>c. vscale c cfog) (sample oor (tceil g) fu fv))
         else if ceil < of_nat32 y \<and> of_nat32 y \<le> floor then
           (let u = uv l (hi_u info);
                v = (of_nat32 y - ceil) / wh
            in map_option (\<lambda>c. vscale c fog) (sample oor (ln_texture l) u v))
         else
           (let u = uv l (hi_u info);
                v = (of_nat32 y - floor) / wh;
                dist = of_nat32 H / (of_nat32 y - h2);
                we = dist / d;
                cfog = std_min ((of_nat32 y - h2) / maxDepth) (Fin 1);
                fu = (we * fwx + (Fin 1 - we) * vx (position (viewer g))) / Fin 2;
                fv = (we * fwy + (Fin 1 - we) * vy (position (viewer g))) / Fin 2
            in case sample oor (tfloor g) fu fv of
                 None \<Rightarrow> None
               | Some c0 \<Rightarrow>
                   (let c = vscale c0 cfog in
                    if v < Fin 1 then
                      (let mixFac = (Fin 1 - v) * we
                       in map_option (\<lambda>t. vadd c (vscale (vscale (vscale t fog) cfog) mixFac))
                            (sample oor (ln_texture l) u (Fin 1 - v)))
                    else Some c)))"

definition onDraw_column ::
  "(f32 \<Rightarrow> u32) \<Rightarrow> (IDist list \<Rightarrow> IDist list) \<Rightarrow> RayCastGame \<Rightarrow> nat \<Rightarrow> nat \<Rightarrow> nat
     \<Rightarrow> PutCall list option" where
  "onDraw_column oor srt g W H x =
     (let thf = view_thf (viewer g);
          rayPos = position (viewer g);
          rayDir = column_ray (viewer g) W x
      in case rayLines srt (lines g) rayPos rayDir of
           None \<Rightarrow> Some []
         | Some info \<Rightarrow>
             if hi_distance info < maxDepth
             then those (map (\<lambda>y. map_option (\<lambda>c. \<lparr>put_x = x, put_y = y, put_c = c\<rparr>)
                                    (shade_pixel oor g H thf info y)) [0..<H])
             else Some [])"

text \<open>
  A frame: the line list is rebuilt from the models, then every column is drawn. (The two
  \<^verbatim>\<open>str\<close> calls that print the position are not part of the model.)
\<close>

definition onDraw ::
  "(f32 \<Rightarrow> u32) \<Rightarrow> (IDist list \<Rightarrow> IDist list) \<Rightarrow> RayCastGame \<Rightarrow> nat \<Rightarrow> nat
     \<Rightarrow> (RayCastGame \<times> PutCall list) option" where
  "onDraw oor srt g W H =
     (case create_lines (models g) of
        None \<Rightarrow> None
      | Some ls \<Rightarrow>
          (let g1 = g\<lparr>lines := ls\<rparr>
           in map_option (\<lambda>cols. (g1, concat cols))
                (those (map (onDraw_column oor srt g1 W H) [0..<W]))))"

section \<open>The update step with rounding\<close>

text \<open>
  The definitions of the update step above compute exactly. For the movement code of
  \<^verbatim>\<open>onUpdate\<close> the result of every operation is also modelled as the program stores it:
  rounded to a binary32 value. The rounding is the parameter \<open>rnd\<close>; with the identity
  for \<open>rnd\<close> the definitions below are the exact ones, and with \<open>round32\<close> they are
  IEEE 754 single precision.
\<close>

fun rd :: "(real \<Rightarrow> real) \<Rightarrow> f32 \<Rightarrow> f32" where
  "rd rnd (Fin x) = Fin (rnd x)"
| "rd rnd PInf = PInf"
| "rd rnd NInf = NInf"
| "rd rnd NaN = NaN"

definition vround :: "(real \<Rightarrow> real) \<Rightarrow> Vec3 \<Rightarrow> Vec3" where
  "vround rnd p = Vec3_xyz (rd rnd (vx p)) (rd rnd (vy p)) (rd rnd (vz p))"

definition vadd_r :: "(real \<Rightarrow> real) \<Rightarrow> Vec3 \<Rightarrow> Vec3 \<Rightarrow> Vec3" where
  "vadd_r rnd p q = vround rnd (vadd p q)"

definition vsub_r :: "(real \<Rightarrow> real) \<Rightarrow> Vec3 \<Rightarrow> Vec3 \<Rightarrow> Vec3" where
  "vsub_r rnd p q = vround rnd (vsub p q)"

definition vscale_r :: "(real \<Rightarrow> real) \<Rightarrow> Vec3 \<Rightarrow> f32 \<Rightarrow> Vec3" where
  "vscale_r rnd p s = vround rnd (vscale p s)"

definition dot_r :: "(real \<Rightarrow> real) \<Rightarrow> Vec3 \<Rightarrow> Vec3 \<Rightarrow> f32" where
  "dot_r rnd p q =
     rd rnd (rd rnd (rd rnd (vx p * vx q) + rd rnd (vy p * vy q)) + rd rnd (vz p * vz q))"

definition vlength_r :: "(real \<Rightarrow> real) \<Rightarrow> Vec3 \<Rightarrow> f32" where
  "vlength_r rnd p = rd rnd (sqrtf (dot_r rnd p p))"

definition Vec3_angle_r :: "(real \<Rightarrow> real) \<Rightarrow> f32 \<Rightarrow> f32 \<Rightarrow> Vec3" where
  "Vec3_angle_r rnd angle z = \<lparr>vx = rd rnd (cosf angle), vy = rd rnd (sinf angle), vz = z\<rparr>"

definition closestPoint_r :: "(real \<Rightarrow> real) \<Rightarrow> Vec3 \<Rightarrow> Vec3 \<Rightarrow> Vec3 \<Rightarrow> Vec3 \<times> f32" where
  "closestPoint_r rnd a b p =
     (let ap = vsub_r rnd p a;
          ab = vsub_r rnd b a;
          atb = dot_r rnd ab ab;
          apab = dot_r rnd ap ab;
          t = rd rnd (apab / atb)
      in (vadd_r rnd a (vscale_r rnd ab t), t))"

fun circleLines_r :: "(real \<Rightarrow> real) \<Rightarrow> Line list \<Rightarrow> Vec3 \<Rightarrow> f32 \<Rightarrow> bool" where
  "circleLines_r rnd [] o' radius = False"
| "circleLines_r rnd (l # ls) o' radius =
     (let (p, t) = closestPoint_r rnd (vscale_r rnd (ln_a l) blockSize)
                     (vscale_r rnd (ln_b l) blockSize) o'
      in if Fin 0 \<le> t \<and> t \<le> Fin 1 \<and> vlength_r rnd (vsub_r rnd p o') < radius then True
         else circleLines_r rnd ls o' radius)"

text \<open>The displacement \<^verbatim>\<open>dir * dt * 4.0f\<close> and the collision radius \<^verbatim>\<open>0.8f\<close>.\<close>

definition move_delta_r :: "(real \<Rightarrow> real) \<Rightarrow> f32 \<Rightarrow> Viewer \<Rightarrow> Vec3" where
  "move_delta_r rnd dt v =
     vscale_r rnd (vscale_r rnd (Vec3_angle_r rnd (rotation v) (Fin 0)) dt) (Fin 4)"

definition radius_r :: "(real \<Rightarrow> real) \<Rightarrow> f32" where
  "radius_r rnd = rd rnd (Fin 0.8)"

definition update_position_r ::
  "(real \<Rightarrow> real) \<Rightarrow> (key \<Rightarrow> bool) \<Rightarrow> f32 \<Rightarrow> Line list \<Rightarrow> Viewer \<Rightarrow> Viewer" where
  "update_position_r rnd isHeld dt ls v =
     (if isHeld SDLK_UP then
        (let delta = move_delta_r rnd dt v;
             v1 = v\<lparr>position := vadd_r rnd (position v) delta\<rparr>
         in if circleLines_r rnd ls (position v1) (radius_r rnd)
            then v1\<lparr>position := vsub_r rnd (position v1) delta\<rparr> else v1)
      else if isHeld SDLK_DOWN then
        (let delta = move_delta_r rnd dt v;
             v1 = v\<lparr>position := vsub_r rnd (position v) delta\<rparr>
         in if circleLines_r rnd ls (position v1) (radius_r rnd)
            then v1\<lparr>position := vadd_r rnd (position v1) delta\<rparr> else v1)
      else v)"

section \<open>Notions used to state the properties\<close>

text \<open>The intersection test of \<^verbatim>\<open>rayLines\<close> for line \<open>i\<close>, on the endpoints scaled by the block size.\<close>

definition seg_hit :: "Line list \<Rightarrow> Vec3 \<Rightarrow> Vec3 \<Rightarrow> nat \<Rightarrow> RayHit option" where
  "seg_hit ls o' d i =
     raySeg o' d (vscale (ln_a (ls ! i)) blockSize) (vscale (ln_b (ls ! i)) blockSize)"

text \<open>
  The collision rule in its own words, on points of real coordinates: the parameter of the
  projection of \<open>p\<close> onto the line through \<open>a\<close> and \<open>b\<close>, the projected point, the Euclidean
  distance, and the rule itself. The projection exists only for \<open>a \<noteq> b\<close>.
\<close>

type_synonym point = "real \<times> real \<times> real"

definition proj_t :: "point \<Rightarrow> point \<Rightarrow> point \<Rightarrow> real" where
  "proj_t a b p =
     (case (a, b, p) of ((a1, a2, a3), (b1, b2, b3), (p1, p2, p3)) \<Rightarrow>
        ((p1 - a1) * (b1 - a1) + (p2 - a2) * (b2 - a2) + (p3 - a3) * (b3 - a3)) /
        ((b1 - a1)\<^sup>2 + (b2 - a2)\<^sup>2 + (b3 - a3)\<^sup>2))"

definition proj_point :: "point \<Rightarrow> point \<Rightarrow> point \<Rightarrow> point" where
  "proj_point a b p =
     (case (a, b) of ((a1, a2, a3), (b1, b2, b3)) \<Rightarrow>
        (a1 + (b1 - a1) * proj_t a b p, a2 + (b2 - a2) * proj_t a b p,
         a3 + (b3 - a3) * proj_t a b p))"

definition euclid :: "point \<Rightarrow> point \<Rightarrow> real" where
  "euclid q p =
     (case (q, p) of ((q1, q2, q3), (p1, p2, p3)) \<Rightarrow>
        sqrt ((q1 - p1)\<^sup>2 + (q2 - p2)\<^sup>2 + (q3 - p3)\<^sup>2))"

definition segment_blocks :: "point \<Rightarrow> point \<Rightarrow> point \<Rightarrow> real \<Rightarrow> bool" where
  "segment_blocks a b p r =
     (a \<noteq> b \<and> 0 \<le> proj_t a b p \<and> proj_t a b p \<le> 1 \<and> euclid (proj_point a b p) p < r)"

text \<open>A line endpoint in world units (times the block size).\<close>

definition world :: "Vec3 \<Rightarrow> point" where
  "world q = (8 * re (vx q), 8 * re (vy q), 8 * re (vz q))"

text \<open>The sum over the lines of the U span from the first to the second endpoint.\<close>

fun u_coverage :: "Line list \<Rightarrow> f32" where
  "u_coverage [] = Fin 0"
| "u_coverage (l # ls) = (ln_u1 l - ln_u0 l) + u_coverage ls"

text \<open>An edge from \<open>(a1, a2)\<close> to \<open>(b1, b2)\<close> whose U runs from 0 to \<open>u\<close>, without a texture.\<close>

definition edge :: "real \<Rightarrow> real \<Rightarrow> real \<Rightarrow> real \<Rightarrow> real \<Rightarrow> Line" where
  "edge a1 a2 b1 b2 u =
     \<lparr>ln_a = vec a1 a2 0, ln_b = vec b1 b2 0, ln_u0 = Fin 0, ln_u1 = Fin u,
      ln_texture = Texture_default\<rparr>"

text \<open>The point at angle \<open>a\<close> of the circle of radius \<open>r\<close> about \<open>(c1, c2)\<close>.\<close>

definition circle_point :: "real \<Rightarrow> real \<Rightarrow> real \<Rightarrow> real \<Rightarrow> Vec3" where
  "circle_point c1 c2 r a = vec (cos a * r + c1) (sin a * r + c2) 0"

subsection \<open>Scenes for the examples\<close>

text \<open>The room of \<^verbatim>\<open>onSetup\<close>, \<^verbatim>\<open>Block(0, 0, 6, 6)\<close>, as the line list built from it.\<close>

definition room :: "Line list" where
  "room = [edge 0 0 6 0 12, edge 6 0 6 6 12, edge 6 6 0 6 12, edge 0 6 0 0 12]"

definition game_with :: "Viewer \<Rightarrow> Line list \<Rightarrow> RayCastGame" where
  "game_with v ls =
     \<lparr>viewer = v, models = [], lines = ls, twall = Texture_default, tfloor = Texture_default,
      tceil = Texture_default, tpillar = Texture_default\<rparr>"

text \<open>A viewer outside the room, east of it and looking east.\<close>

definition outside_viewer :: "Viewer" where
  "outside_viewer = \<lparr>position = vec 56 24 0, rotation = Fin 0, fov = rad 90\<rparr>"

text \<open>A texture of two pixels side by side, black and white.\<close>

definition two_texel :: "Texture" where
  "two_texel = \<lparr>m_width = 2, m_height = 1, m_pixels = [0, 0, 0, 255, 255, 255]\<rparr>"

text \<open>A wall from \<open>(0, -8)\<close> to \<open>(0, 8)\<close> in world units.\<close>

definition short_wall :: "Line" where
  "short_wall = edge 0 (- 1) 0 1 4"

text \<open>
  A viewer at the widest field of view, \<^verbatim>\<open>rad(120)\<close>, looking east at a wall 50 world units
  ahead.
\<close>

definition wide_viewer :: "Viewer" where
  "wide_viewer = \<lparr>position = vec 6 0 0, rotation = Fin 0, fov = rad 120\<rparr>"

definition far_wall :: "Line" where
  "far_wall = edge 7 (- 1) 7 1 4"

text \<open>
  A viewer just west of \<open>x = 8\<close> and looking east, with a wall ahead at a distance of
  0.8167, outside the collision radius \<^verbatim>\<open>0.8f\<close>, and the time step of the main loop,
  \<^verbatim>\<open>f32(timeStep)\<close> for the \<^verbatim>\<open>double\<close> \<^verbatim>\<open>timeStep = 1.0 / 60.0\<close>.
\<close>

definition creep_viewer :: "Viewer" where
  "creep_viewer = \<lparr>position = vec (8 - 1 / 2 ^ 21) 0 0, rotation = Fin 0, fov = rad 60\<rparr>"

definition creep_wall :: "Line" where
  "creep_wall = edge (9244945 / 2 ^ 23) (- 1) (9244945 / 2 ^ 23) 1 4"

definition creep_dt :: "f32" where
  "creep_dt = rd round32 (Fin (round64 (1 / 60)))"

definition only_up :: "key \<Rightarrow> bool" where
  "only_up k = (k = SDLK_UP)"

section \<open>Basic facts\<close>

lemma Fin_minus [simp]: "Fin r - Fin s = Fin (r - s)"
  by (simp add: minus_f32_def)

lemmas vec_defs = vec_def Vec3_xyz_def Vec3_angle_def dot_def cross_def vsub_def vadd_def vscale_def

lemmas raySeg_defs = raySeg_def raySeg_t1_def raySeg_t2_def raySeg_d23_def

lemma fin_vecE:
  assumes "fin_vec p"
  obtains x y z where "p = vec x y z"
proof -
  from assms obtain x y z where "vx p = Fin x" "vy p = Fin y" "vz p = Fin z"
    unfolding fin_vec_def by (metis is_fin.elims(2))
  then have "p = vec x y z" by (simp add: vec_def)
  then show thesis by (rule that)
qed

lemma fin_vec_vec [simp]: "fin_vec (vec x y z)"
  by (simp add: fin_vec_def vec_def)

lemma vscale_blockSize: "vscale (vec x y z) blockSize = vec (8 * x) (8 * y) (8 * z)"
  by (simp add: blockSize_def vec_defs mult.commute)

lemma world_vec: "world (vec x y z) = (8 * x, 8 * y, 8 * z)"
  by (simp add: world_def vec_def)

lemma div_zero_not_fin: "\<not> is_fin (p / Fin 0)"
  by (cases p) (simp_all add: inf_of_def)

lemma nonfin_fails: "\<not> is_fin t \<Longrightarrow> \<not> (Fin 0 \<le> t \<and> t \<le> Fin 1)"
  by (cases t) simp_all

lemma fin_not_less: "is_fin p \<Longrightarrow> is_fin q \<Longrightarrow> \<not> q < p \<Longrightarrow> p \<le> q"
  by (cases p; cases q) simp_all

lemma fin_le_refl: "is_fin p \<Longrightarrow> p \<le> p"
  by (cases p) simp_all

lemma sumsq_zero: "(x::real)\<^sup>2 + y\<^sup>2 + z\<^sup>2 = 0 \<longleftrightarrow> x = 0 \<and> y = 0 \<and> z = 0"
  by (smt (verit) power2_less_eq_zero_iff zero_le_power2 sum_power2_eq_zero_iff)

lemma unsigned_real_nonneg: "0 \<le> (unsigned (w :: 'a::len word) :: real)"
  by (metis of_nat_unat of_nat_0_le_iff)

subsection \<open>The intersection test on finite vectors\<close>

lemma raySeg_zero_divisor: "raySeg_d23 o' d a b = Fin 0 \<Longrightarrow> raySeg o' d a b = None"
  using nonfin_fails[OF div_zero_not_fin]
  by (simp add: raySeg_def raySeg_t2_def Let_def)

lemma raySeg_d23_vec:
  "raySeg_d23 (vec o1 o2 o3) (vec d1 d2 d3) (vec a1 a2 a3) (vec b1 b2 b3)
     = Fin ((b2 - a2) * d1 - (b1 - a1) * d2)"
  by (simp add: raySeg_d23_def vec_defs Let_def algebra_simps)

lemma raySeg_t1_vec:
  "(b2 - a2) * d1 - (b1 - a1) * d2 \<noteq> 0 \<Longrightarrow>
   raySeg_t1 (vec o1 o2 o3) (vec d1 d2 d3) (vec a1 a2 a3) (vec b1 b2 b3)
     = Fin (((b1 - a1) * (o2 - a2) - (b2 - a2) * (o1 - a1)) / ((b2 - a2) * d1 - (b1 - a1) * d2))"
  by (simp add: raySeg_t1_def raySeg_d23_vec) (simp add: vec_defs Let_def)

lemma raySeg_t2_vec:
  "(b2 - a2) * d1 - (b1 - a1) * d2 \<noteq> 0 \<Longrightarrow>
   raySeg_t2 (vec o1 o2 o3) (vec d1 d2 d3) (vec a1 a2 a3) (vec b1 b2 b3)
     = Fin (((o2 - a2) * d1 - (o1 - a1) * d2) / ((b2 - a2) * d1 - (b1 - a1) * d2))"
  by (simp add: raySeg_t2_def raySeg_d23_vec) (simp add: vec_defs Let_def algebra_simps)

text \<open>
  With a divisor that is not zero, the test and the results of \<^verbatim>\<open>raySeg\<close> over the reals:
  the hit is decided by \<open>t1 \<ge> 0\<close> and \<open>0 \<le> t2 \<le> 1\<close>, the position is \<open>a + v2 * t2\<close> in
  the plane, the distance is \<open>t1\<close> and the segment parameter \<open>t2\<close>. The normal is the
  vector the angle constructor builds from \<open>-v2.y\<close> and \<open>v2.x\<close>.
\<close>

lemma raySeg_finite:
  assumes "(b2 - a2) * d1 - (b1 - a1) * d2 \<noteq> 0"
  shows "raySeg (vec o1 o2 o3) (vec d1 d2 d3) (vec a1 a2 a3) (vec b1 b2 b3) =
     (let t1 = ((b1 - a1) * (o2 - a2) - (b2 - a2) * (o1 - a1)) / ((b2 - a2) * d1 - (b1 - a1) * d2);
          t2 = ((o2 - a2) * d1 - (o1 - a1) * d2) / ((b2 - a2) * d1 - (b1 - a1) * d2)
      in if 0 \<le> t1 \<and> 0 \<le> t2 \<and> t2 \<le> 1
         then Some \<lparr>rh_hit = vec (a1 + (b1 - a1) * t2) (a2 + (b2 - a2) * t2) 0,
                    rh_norm = Vec3_angle (Fin (- (b2 - a2))) (Fin (b1 - a1)),
                    rh_t = Fin t1, rh_u = Fin t2\<rparr>
         else None)"
  unfolding raySeg_def raySeg_t1_vec[OF assms] raySeg_t2_vec[OF assms]
  by (simp add: Let_def vec_def Vec3_xyz_def vsub_def)

text \<open>The point \<open>a + v2 * t2\<close> is the point \<open>o + d * t1\<close> of the ray.\<close>

lemma raySeg_point_on_ray:
  fixes o1 o2 d1 d2 a1 a2 b1 b2 :: real
  assumes "(b2 - a2) * d1 - (b1 - a1) * d2 \<noteq> 0"
  defines "t1 \<equiv> ((b1 - a1) * (o2 - a2) - (b2 - a2) * (o1 - a1)) / ((b2 - a2) * d1 - (b1 - a1) * d2)"
    and "t2 \<equiv> ((o2 - a2) * d1 - (o1 - a1) * d2) / ((b2 - a2) * d1 - (b1 - a1) * d2)"
  shows "a1 + (b1 - a1) * t2 = o1 + d1 * t1" and "a2 + (b2 - a2) * t2 = o2 + d2 * t1"
  using assms(1) unfolding t1_def t2_def by (simp_all add: field_simps)

lemma raySeg_fin_t:
  assumes "fin_vec o'" "fin_vec d" "fin_vec a" "fin_vec b" "raySeg o' d a b = Some h"
  shows "is_fin (rh_t h)"
proof -
  from assms(1-4) obtain o1 o2 o3 d1 d2 d3 a1 a2 a3 b1 b2 b3 where
    v: "o' = vec o1 o2 o3" "d = vec d1 d2 d3" "a = vec a1 a2 a3" "b = vec b1 b2 b3"
    by (auto elim!: fin_vecE)
  show ?thesis
  proof (cases "(b2 - a2) * d1 - (b1 - a1) * d2 = 0")
    case True
    then have "raySeg o' d a b = None"
      by (intro raySeg_zero_divisor) (simp add: v raySeg_d23_vec)
    with assms(5) show ?thesis by simp
  next
    case False
    from assms(5) have "rh_t h = raySeg_t1 o' d a b"
      by (auto simp: raySeg_def Let_def split: if_splits)
    then show ?thesis by (simp add: v raySeg_t1_vec[OF False])
  qed
qed

subsection \<open>The hits that \<^verbatim>\<open>rayLines\<close> collects\<close>

lemma line_hit_None: "seg_hit ls o' d i = None \<Longrightarrow> line_hit ls o' d i = []"
  by (simp add: line_hit_def seg_hit_def Let_def)

lemma line_hit_Some:
  "seg_hit ls o' d i = Some h \<Longrightarrow>
   \<exists>hi. line_hit ls o' d i = [(i, hi)] \<and> hi_line hi = i \<and> hi_position hi = rh_hit h \<and>
        hi_normal hi = rh_norm h \<and> hi_distance hi = rh_t h \<and> hi_u hi = rh_u h"
  by (simp add: line_hit_def seg_hit_def Let_def)

lemma in_md_iff:
  "m \<in> set (rayLines_md ls o' d) \<longleftrightarrow> (\<exists>i < length ls. m \<in> set (line_hit ls o' d i))"
  by (auto simp: rayLines_md_def)

lemma md_empty_iff:
  "rayLines_md ls o' d = [] \<longleftrightarrow> (\<forall>i < length ls. seg_hit ls o' d i = None)"
proof
  assume e: "rayLines_md ls o' d = []"
  show "\<forall>i < length ls. seg_hit ls o' d i = None"
  proof (intro allI impI)
    fix i assume i: "i < length ls"
    show "seg_hit ls o' d i = None"
    proof (cases "seg_hit ls o' d i")
      case None then show ?thesis .
    next
      case (Some h)
      from line_hit_Some[OF Some] obtain hi where "line_hit ls o' d i = [(i, hi)]" by blast
      with i have "(i, hi) \<in> set (rayLines_md ls o' d)" by (auto simp: in_md_iff)
      with e show ?thesis by simp
    qed
  qed
next
  assume "\<forall>i < length ls. seg_hit ls o' d i = None"
  then have "\<forall>i < length ls. line_hit ls o' d i = []" by (simp add: line_hit_None)
  then show "rayLines_md ls o' d = []" by (simp add: rayLines_md_def)
qed

lemma in_md_hit:
  assumes "m \<in> set (rayLines_md ls o' d)"
  shows "\<exists>i < length ls. \<exists>h. seg_hit ls o' d i = Some h \<and> fst m = i \<and> hi_line (snd m) = i \<and>
           hi_position (snd m) = rh_hit h \<and> hi_normal (snd m) = rh_norm h \<and>
           hi_distance (snd m) = rh_t h \<and> hi_u (snd m) = rh_u h"
proof -
  from assms obtain i where i: "i < length ls" "m \<in> set (line_hit ls o' d i)"
    by (auto simp: in_md_iff)
  show ?thesis
  proof (cases "seg_hit ls o' d i")
    case None
    with i(2) show ?thesis by (simp add: line_hit_None)
  next
    case (Some h)
    from line_hit_Some[OF Some] i show ?thesis using Some by auto
  qed
qed

lemma hit_in_md:
  assumes "i < length ls" "seg_hit ls o' d i = Some h"
  shows "\<exists>m \<in> set (rayLines_md ls o' d). hi_distance (snd m) = rh_t h"
proof -
  from line_hit_Some[OF assms(2)] obtain hi where
    "line_hit ls o' d i = [(i, hi)]" "hi_distance hi = rh_t h" by blast
  with assms(1) have "(i, hi) \<in> set (rayLines_md ls o' d)"
    unfolding in_md_iff by (intro exI[of _ i]) simp
  with \<open>hi_distance hi = rh_t h\<close> show ?thesis by (intro bexI[of _ "(i, hi)"]) simp_all
qed

lemma md_fin:
  assumes "fin_vec o'" "fin_vec d" "\<forall>l \<in> set ls. fin_vec (ln_a l) \<and> fin_vec (ln_b l)"
  shows "\<forall>m \<in> set (rayLines_md ls o' d). is_fin (hi_distance (snd m))"
proof
  fix m assume "m \<in> set (rayLines_md ls o' d)"
  from in_md_hit[OF this] obtain i h where
    i: "i < length ls" and h: "seg_hit ls o' d i = Some h" and dm: "hi_distance (snd m) = rh_t h"
    by blast
  from i assms(3) have fa: "fin_vec (ln_a (ls ! i))" "fin_vec (ln_b (ls ! i))" by auto
  have "fin_vec (vscale (ln_a (ls ! i)) blockSize)" "fin_vec (vscale (ln_b (ls ! i)) blockSize)"
    using fa by (auto elim!: fin_vecE simp: vscale_blockSize)
  from raySeg_fin_t[OF assms(1,2) this] h show "is_fin (hi_distance (snd m))"
    by (simp add: seg_hit_def dm)
qed

subsection \<open>The insertion sort keeps the promise of \<^verbatim>\<open>std::sort\<close>\<close>

lemma insert_by_distance_mset: "mset (insert_by_distance m ps) = add_mset m (mset ps)"
  by (induction ps) auto

lemma sort_by_distance_mset: "mset (sort_by_distance md) = mset md"
  by (induction md) (auto simp: sort_by_distance_def insert_by_distance_mset)

lemma insert_by_distance_set: "set (insert_by_distance m ps) = insert m (set ps)"
  by (induction ps) auto

lemma insert_by_distance_sorted:
  assumes "is_fin (hi_distance (snd m))" "\<forall>p \<in> set ps. is_fin (hi_distance (snd p))"
    "sorted_wrt (\<lambda>p q. \<not> hi_distance (snd q) < hi_distance (snd p)) ps"
  shows "sorted_wrt (\<lambda>p q. \<not> hi_distance (snd q) < hi_distance (snd p)) (insert_by_distance m ps)"
  using assms
proof (induction ps)
  case Nil
  then show ?case by simp
next
  case (Cons p ps)
  obtain a where a: "hi_distance (snd m) = Fin a" using Cons.prems(1) by (cases "hi_distance (snd m)") auto
  obtain b where b: "hi_distance (snd p) = Fin b" using Cons.prems(2) by (cases "hi_distance (snd p)") auto
  show ?case
  proof (cases "hi_distance (snd p) < hi_distance (snd m)")
    case True
    with Cons show ?thesis
      by (auto simp: insert_by_distance_set a b)
  next
    case False
    have "\<not> hi_distance (snd q) < hi_distance (snd m)" if "q \<in> set ps" for q
    proof -
      have "is_fin (hi_distance (snd q))"
        using Cons.prems(2) that by simp
      then obtain c where c: "hi_distance (snd q) = Fin c"
        by (cases "hi_distance (snd q)") auto
      from Cons.prems(3) that have "\<not> hi_distance (snd q) < hi_distance (snd p)" by simp
      with False show ?thesis by (simp add: a b c)
    qed
    with False Cons.prems(3) show ?thesis by auto
  qed
qed

lemma sort_by_distance_sorted:
  "\<forall>p \<in> set md. is_fin (hi_distance (snd p)) \<Longrightarrow>
   sorted_wrt (\<lambda>p q. \<not> hi_distance (snd q) < hi_distance (snd p)) (sort_by_distance md)"
proof (induction md)
  case Nil
  then show ?case by (simp add: sort_by_distance_def)
next
  case (Cons m md)
  have "set (foldr insert_by_distance md []) = set md"
    using sort_by_distance_mset[of md] unfolding sort_by_distance_def by (rule mset_eq_setD)
  with Cons show ?case
    by (simp add: sort_by_distance_def insert_by_distance_sorted)
qed

lemma std_sort_sort_by_distance: "std_sort sort_by_distance"
  unfolding std_sort_def by (simp add: sort_by_distance_mset sort_by_distance_sorted)

subsection \<open>Closest point and collision on finite vectors\<close>

lemma closestPoint_degenerate:
  "\<not> is_fin (snd (closestPoint (vec a1 a2 a3) (vec a1 a2 a3) p))"
proof -
  have "\<not> is_fin (q / Fin 0)" for q
    by (cases q) (simp_all add: inf_of_def)
  then show ?thesis
    by (simp add: closestPoint_def Let_def vec_defs)
qed

lemma closestPoint_vec:
  assumes "(a1, a2, a3) \<noteq> (b1, b2, b3)"
  shows "closestPoint (vec a1 a2 a3) (vec b1 b2 b3) (vec p1 p2 p3) =
     (let t = proj_t (a1, a2, a3) (b1, b2, b3) (p1, p2, p3)
      in (vec (a1 + (b1 - a1) * t) (a2 + (b2 - a2) * t) (a3 + (b3 - a3) * t), Fin t))"
proof -
  have "(b1 - a1)\<^sup>2 + (b2 - a2)\<^sup>2 + (b3 - a3)\<^sup>2 \<noteq> 0"
    using assms by (auto simp: sumsq_zero)
  then have nz: "(b1 - a1) * (b1 - a1) + (b2 - a2) * (b2 - a2) + (b3 - a3) * (b3 - a3) \<noteq> 0"
    by (simp add: power2_eq_square)
  show ?thesis
    by (simp add: closestPoint_def Let_def vec_defs nz proj_t_def power2_eq_square)
qed
lemma vlength_vsub_vec:
  "vlength (vsub (vec q1 q2 q3) (vec p1 p2 p3)) = Fin (euclid (q1, q2, q3) (p1, p2, p3))"
  by (simp add: vlength_def vec_defs euclid_def power2_eq_square not_less)

lemma circle_step:
  "(case closestPoint (vscale (vec a1 a2 a3) blockSize) (vscale (vec b1 b2 b3) blockSize) (vec p1 p2 p3)
      of (q, t) \<Rightarrow> Fin 0 \<le> t \<and> t \<le> Fin 1 \<and> vlength (vsub q (vec p1 p2 p3)) < Fin r)
   = segment_blocks (world (vec a1 a2 a3)) (world (vec b1 b2 b3)) (p1, p2, p3) r"
proof (cases "(8 * a1, 8 * a2, 8 * a3) = (8 * b1, 8 * b2, 8 * b3)")
  case True
  then have eq: "vec (8 * b1) (8 * b2) (8 * b3) = vec (8 * a1) (8 * a2) (8 * a3)"
    by simp
  have "segment_blocks (world (vec a1 a2 a3)) (world (vec b1 b2 b3)) (p1, p2, p3) r = False"
    using True by (simp add: segment_blocks_def world_vec)
  moreover have "(case closestPoint (vec (8 * a1) (8 * a2) (8 * a3)) (vec (8 * a1) (8 * a2) (8 * a3)) (vec p1 p2 p3)
      of (q, t) \<Rightarrow> Fin 0 \<le> t \<and> t \<le> Fin 1 \<and> vlength (vsub q (vec p1 p2 p3)) < Fin r) = False"
    using nonfin_fails[OF closestPoint_degenerate[of "8 * a1" "8 * a2" "8 * a3" "vec p1 p2 p3"]]
    by (auto simp: case_prod_beta)
  ultimately show ?thesis
    by (simp only: vscale_blockSize eq)
next
  case False
  show ?thesis
    unfolding vscale_blockSize closestPoint_vec[OF False] world_vec
    using False by (auto simp: Let_def segment_blocks_def vlength_vsub_vec proj_point_def)
qed

subsection \<open>Models and their lines\<close>

lemma model_lines_endpoints:
  "model_lines m js = Some ls \<Longrightarrow> l \<in> set ls \<Longrightarrow>
     (\<exists>v \<in> set (vertices m). ln_a l = vadd (vert_pos v) (position m)) \<and>
     (\<exists>v \<in> set (vertices m). ln_b l = vadd (vert_pos v) (position m))"
proof (induction m js arbitrary: ls rule: model_lines.induct)
  case (1 m)
  then show ?case by simp
next
  case (2 m i)
  then show ?case by simp
next
  case (3 m i j rest)
  from "3.prems"(1) obtain ls' where
    ij: "i < length (vertices m)" "j < length (vertices m)" and
    rest: "model_lines m rest = Some ls'" and
    ls: "ls = \<lparr>ln_a = vadd (vert_pos (vertices m ! i)) (position m),
                ln_b = vadd (vert_pos (vertices m ! j)) (position m),
                ln_u0 = vert_u (vertices m ! i),
                ln_u1 = vert_u (vertices m ! j),
                ln_texture = texture m\<rparr> # ls'"
    by (auto simp: Let_def split: if_splits)
  show ?case
  proof (cases "l \<in> set ls'")
    case True
    with "3.IH" ij rest show ?thesis by blast
  next
    case False
    with "3.prems"(2) ls have "l = \<lparr>ln_a = vadd (vert_pos (vertices m ! i)) (position m),
                ln_b = vadd (vert_pos (vertices m ! j)) (position m),
                ln_u0 = vert_u (vertices m ! i),
                ln_u1 = vert_u (vertices m ! j),
                ln_texture = texture m\<rparr>" by simp
    with ij show ?thesis by (auto intro: nth_mem)
  qed
qed

lemma model_lines_defined:
  "even (length js) \<Longrightarrow> \<forall>i \<in> set js. i < length (vertices m) \<Longrightarrow>
     \<exists>ls. model_lines m js = Some ls \<and> length ls = length js div 2"
proof (induction m js rule: model_lines.induct)
  case (1 m)
  then show ?case by simp
next
  case (2 m i)
  then show ?case by simp
next
  case (3 m i j rest)
  then have "\<exists>ls. model_lines m rest = Some ls \<and> length ls = length rest div 2"
    by simp
  with "3.prems" show ?case by (auto simp: Let_def)
qed
lemma vertices_addIndex [simp]: "vertices (addIndex i m) = vertices m"
  by (simp add: addIndex_def)

lemma position_addIndex [simp]: "position (addIndex i m) = position m"
  by (simp add: addIndex_def)

lemma position_addVert [simp]: "position (addVert p u m) = position m"
  by (simp add: addVert_def)

lemma indices_addVert [simp]: "indices (addVert p u m) = indices m"
  by (simp add: addVert_def)

subsection \<open>Bounds on \<open>pi\<close> and on the tangent\<close>

lemma pi_ge_3: "3 \<le> pi"
proof -
  have "sin (pi / 6) \<le> pi / 6" by (intro sin_x_le_x) simp
  then show ?thesis by (simp add: sin_30)
qed

lemma sin_one_lower: "33 / 40 \<le> sin (1::real)"
proof -
  have "\<bar>sin (1::real) - (\<Sum>m<5. sin_coeff m * 1 ^ m)\<bar> \<le> inverse (fact 5) * \<bar>1\<bar> ^ 5"
    by (rule Maclaurin_sin_bound)
  moreover have "{..<5::nat} = {0, 1, 2, 3, 4}" by auto
  then have "(\<Sum>m<5. sin_coeff m * (1::real) ^ m) = 5 / 6"
    by (simp add: sin_coeff_def fact_numeral)
  moreover have "inverse (fact 5) * \<bar>1::real\<bar> ^ 5 = 1 / 120"
    by (simp add: eval_nat_numeral)
  ultimately show ?thesis by linarith
qed

lemma cos_one_upper: "cos (1::real) \<le> 13 / 24"
proof -
  from Maclaurin_cos_expansion2[of 1 4] obtain t :: real where
    e: "cos 1 = (\<Sum>m<4. cos_coeff m * 1 ^ m) + (cos (t + 1/2 * real 4 * pi) / fact 4) * 1 ^ 4"
    by auto
  have "{..<4::nat} = {0, 1, 2, 3}" by auto
  then have s: "(\<Sum>m<4. cos_coeff m * (1::real) ^ m) = 1 / 2"
    by (simp add: cos_coeff_def fact_numeral)
  have f: "fact 4 = (24::real)" by (simp add: fact_numeral)
  have "cos (t + 1/2 * real 4 * pi) \<le> 1" by (rule cos_le_one)
  then have "(cos (t + 1/2 * real 4 * pi) / fact 4) * 1 ^ 4 \<le> 1 / 24"
    unfolding f by simp
  with e s show ?thesis by linarith
qed

lemma cos_one_pos: "0 < cos (1::real)"
  by (intro cos_gt_zero) (use pi_ge_3 in auto)

lemma tan_one_lower: "3 / 2 \<le> tan (1::real)"
proof -
  have "3 / 2 * cos (1::real) \<le> sin 1"
    using sin_one_lower cos_one_upper by linarith
  then show ?thesis
    using cos_one_pos by (simp add: tan_def field_simps)
qed

lemma thf_120: "3 / 2 \<le> tan (120 * 0.0174533 / 2 :: real)"
proof -
  have "tan (1::real) \<le> tan (120 * 0.0174533 / 2)"
    by (intro tan_mono_le) (use pi_ge_3 in auto)
  with tan_one_lower show ?thesis by linarith
qed

subsection \<open>Evaluating the rounding\<close>

lemma floor_log2_neg:
  assumes "1 / 2 ^ n \<le> \<bar>x\<bar>" "\<bar>x\<bar> < 2 / 2 ^ n"
  shows "\<lfloor>log 2 \<bar>x\<bar>\<rfloor> = - int n"
proof -
  have x: "0 < \<bar>x\<bar>" using assms(1) by (smt (verit) divide_pos_pos zero_less_power)
  have a: "2 powr (of_int (- int n)) = 1 / (2::real) ^ n"
    by (simp add: powr_minus powr_realpow inverse_eq_divide)
  have b: "2 powr (of_int (- int n + 1)) = 2 / (2::real) ^ n"
  proof -
    have "(2::real) powr (- real n + 1) = 2 powr (- real n) * 2 powr 1"
      by (rule powr_add)
    then have "2 powr (of_int (- int n + 1)) = 2 powr (- real n) * (2::real) powr 1"
      by simp
    then show ?thesis by (simp add: powr_minus powr_realpow inverse_eq_divide)
  qed
  show ?thesis
    using floor_log_eq_powr_iff[of "\<bar>x\<bar>" 2 "- int n"] x assms a b by simp
qed

lemma round32_neg_exp:
  assumes "1 / 2 ^ n \<le> \<bar>x\<bar>" "\<bar>x\<bar> < 2 / 2 ^ n"
  shows "round32 x = of_int (rne (x * 2 ^ (n + 23))) / 2 ^ (n + 23)"
proof -
  have nz: "x \<noteq> 0" using assms(1) by (smt (verit) divide_pos_pos zero_less_power abs_zero)
  have e: "\<lfloor>log 2 \<bar>x\<bar>\<rfloor> - 23 = - int (n + 23)"
    using floor_log2_neg[OF assms] by simp
  have p: "2 powr (of_int (- int (n + 23))) = 1 / (2::real) ^ (n + 23)"
    by (simp add: powr_minus powr_realpow inverse_eq_divide del: of_nat_add)
  show ?thesis
    unfolding round32_def e Let_def p using nz by simp
qed

lemma round32_pos_exp:
  assumes "2 ^ n \<le> \<bar>x\<bar>" "\<bar>x\<bar> < 2 * 2 ^ n" "n \<le> 23"
  shows "round32 x = of_int (rne (x * 2 ^ (23 - n))) / 2 ^ (23 - n)"
proof -
  have x: "0 < \<bar>x\<bar>" using assms(1) by (smt (verit) zero_less_power)
  then have nz: "x \<noteq> 0" by auto
  have a: "2 powr (of_int (int n)) = (2::real) ^ n"
    by (simp add: powr_realpow)
  have b: "2 powr (of_int (int n + 1)) = 2 * (2::real) ^ n"
    by (simp add: powr_add powr_realpow)
  have fl: "\<lfloor>log 2 \<bar>x\<bar>\<rfloor> = int n"
    using floor_log_eq_powr_iff[of "\<bar>x\<bar>" 2 "int n"] x assms(1,2) a b by simp
  have e: "\<lfloor>log 2 \<bar>x\<bar>\<rfloor> - 23 = - int (23 - n)"
    using fl assms(3) by simp
  have p: "2 powr (of_int (- int (23 - n))) = 1 / (2::real) ^ (23 - n)"
    by (simp add: powr_minus powr_realpow inverse_eq_divide del: of_nat_diff)
  show ?thesis
    unfolding round32_def e Let_def p using nz by simp
qed

lemma round32_0 [simp]: "round32 0 = 0"
  by (simp add: round32_def)

lemmas round32_eval =
  round32_neg_exp[where n=0] round32_neg_exp[where n=1] round32_neg_exp[where n=2]
  round32_neg_exp[where n=3] round32_neg_exp[where n=4] round32_neg_exp[where n=5]
  round32_neg_exp[where n=6] round32_neg_exp[where n=7]
  round32_pos_exp[where n=1] round32_pos_exp[where n=2] round32_pos_exp[where n=3]
  round32_pos_exp[where n=4] round32_pos_exp[where n=5] round32_pos_exp[where n=6]
  round32_pos_exp[where n=7] round32_pos_exp[where n=8]

lemma round64_neg_exp:
  assumes "1 / 2 ^ n \<le> \<bar>x\<bar>" "\<bar>x\<bar> < 2 / 2 ^ n"
  shows "round64 x = of_int (rne (x * 2 ^ (n + 52))) / 2 ^ (n + 52)"
proof -
  have nz: "x \<noteq> 0" using assms(1) by (smt (verit) divide_pos_pos zero_less_power abs_zero)
  have e: "\<lfloor>log 2 \<bar>x\<bar>\<rfloor> - 52 = - int (n + 52)"
    using floor_log2_neg[OF assms] by simp
  have p: "2 powr (of_int (- int (n + 52))) = 1 / (2::real) ^ (n + 52)"
    by (simp add: powr_minus powr_realpow inverse_eq_divide del: of_nat_add)
  show ?thesis
    unfolding round64_def e Let_def p using nz by simp
qed

lemma round64_pos_exp:
  assumes "2 ^ n \<le> \<bar>x\<bar>" "\<bar>x\<bar> < 2 * 2 ^ n" "n \<le> 52"
  shows "round64 x = of_int (rne (x * 2 ^ (52 - n))) / 2 ^ (52 - n)"
proof -
  have x: "0 < \<bar>x\<bar>" using assms(1) by (smt (verit) zero_less_power)
  then have nz: "x \<noteq> 0" by auto
  have a: "2 powr (of_int (int n)) = (2::real) ^ n"
    by (simp add: powr_realpow)
  have b: "2 powr (of_int (int n + 1)) = 2 * (2::real) ^ n"
    by (simp add: powr_add powr_realpow)
  have fl: "\<lfloor>log 2 \<bar>x\<bar>\<rfloor> = int n"
    using floor_log_eq_powr_iff[of "\<bar>x\<bar>" 2 "int n"] x assms(1,2) a b by simp
  have e: "\<lfloor>log 2 \<bar>x\<bar>\<rfloor> - 52 = - int (52 - n)"
    using fl assms(3) by simp
  have p: "2 powr (of_int (- int (52 - n))) = 1 / (2::real) ^ (52 - n)"
    by (simp add: powr_minus powr_realpow inverse_eq_divide del: of_nat_diff)
  show ?thesis
    unfolding round64_def e Let_def p using nz by simp
qed

lemma sqrt_9_16: "sqrt (9 / 16) = 3 / 4"
  by (rule real_sqrt_unique) (simp_all add: power2_eq_square)

section \<open>The properties\<close>

subsection \<open>C1: the nearest hit\<close>

lemma room_created: "create_lines [Block (Fin 0) (Fin 0) (Fin 6) (Fin 6)] = Some room"
  by (simp add: Block_def Let_def addVert_def addIndex_def set_position_xy_def Model_new_def
        room_def edge_def vec_defs)

lemma room_fin: "\<forall>l \<in> set room. fin_vec (ln_a l) \<and> fin_vec (ln_b l)"
  by (simp add: room_def edge_def)

lemmas room_eval = seg_hit_def room_def edge_def blockSize_def raySeg_defs vec_defs Let_def inf_of_def

lemma room_centre_hits:
  "seg_hit room (vec 24 24 0) (vec 1 0 0) 0 = None"
  "seg_hit room (vec 24 24 0) (vec 1 0 0) (Suc 0) =
     Some \<lparr>rh_hit = vec 48 24 0, rh_norm = Vec3_angle (Fin (- 48)) (Fin 0), rh_t = Fin 24,
           rh_u = Fin (1 / 2)\<rparr>"
  "seg_hit room (vec 24 24 0) (vec 1 0 0) 2 = None"
  "seg_hit room (vec 24 24 0) (vec 1 0 0) 3 = None"
  by (simp_all add: room_eval)

lemma room_outside_misses:
  "i < 4 \<Longrightarrow> seg_hit room (vec 56 24 0) (vec 1 0 0) i = None"
proof -
  assume "i < 4"
  then have "i = 0 \<or> i = 1 \<or> i = 2 \<or> i = 3" by auto
  then show ?thesis by (auto simp: room_eval)
qed

lemma outside_ray: "column_ray outside_viewer 320 160 = vec 1 0 0"
  by (simp add: column_ray_def outside_viewer_def view_thf_def rad_def rotateZ_def of_nat32_def
        Let_def vec_defs)

text \<open>
  Claim C1. For a ray and a list of scene lines (all of finite coordinates) and any sort
  that keeps the promise of \<^verbatim>\<open>std::sort\<close>: if at least one line yields a valid
  \<^verbatim>\<open>raySeg\<close> intersection, \<^verbatim>\<open>rayLines\<close> returns a hit, the hit is the intersection with
  one of the lines, and its distance is at most the distance of every valid intersection,
  so of two walls crossed by the ray the farther one is never selected. (The result is a
  function of the sort, the lines and the ray: which of several hits at the same least
  distance is returned is decided by the sort alone.) If no line yields a valid
  intersection, \<^verbatim>\<open>rayLines\<close> returns no hit and the column of \<^verbatim>\<open>onDraw\<close> that cast the ray
  makes no \<^verbatim>\<open>put\<close> call.
\<close>

theorem rayLines_nearest_hit:
  assumes srt: "std_sort srt"
    and fin: "fin_vec o'" "fin_vec d" "\<forall>l \<in> set ls. fin_vec (ln_a l) \<and> fin_vec (ln_b l)"
  shows "((\<exists>i < length ls. seg_hit ls o' d i \<noteq> None) \<longrightarrow>
            (\<exists>info. rayLines srt ls o' d = Some info \<and>
               (\<exists>i < length ls. \<exists>h. seg_hit ls o' d i = Some h \<and> hi_line info = i \<and>
                  hi_position info = rh_hit h \<and> hi_distance info = rh_t h \<and> hi_u info = rh_u h) \<and>
               (\<forall>j < length ls. \<forall>h'. seg_hit ls o' d j = Some h' \<longrightarrow>
                  hi_distance info \<le> rh_t h'))) \<and>
         ((\<forall>i < length ls. seg_hit ls o' d i = None) \<longrightarrow>
            rayLines srt ls o' d = None \<and>
            (\<forall>g W H x oor. lines g = ls \<and> position (viewer g) = o' \<and> column_ray (viewer g) W x = d
               \<longrightarrow> onDraw_column oor srt g W H x = Some []))"
proof -
  let ?md = "rayLines_md ls o' d"
  have f: "\<forall>m \<in> set ?md. is_fin (hi_distance (snd m))"
    by (rule md_fin[OF fin])
  note P = srt[unfolded std_sort_def, THEN spec, THEN mp, OF f]
  have ms: "mset (srt ?md) = mset ?md"
    by (rule P[THEN conjunct1])
  have so: "sorted_wrt (\<lambda>p q. \<not> hi_distance (snd q) < hi_distance (snd p)) (srt ?md)"
    by (rule P[THEN conjunct2])
  from ms have st: "set (srt ?md) = set ?md" by (rule mset_eq_setD)
  have "srt ?md = [] \<longleftrightarrow> mset (srt ?md) = {#}" by simp
  also have "\<dots> \<longleftrightarrow> ?md = []" unfolding ms by simp
  finally have e: "srt ?md = [] \<longleftrightarrow> ?md = []" .
  have none: "rayLines srt ls o' d = None \<longleftrightarrow> (\<forall>i < length ls. seg_hit ls o' d i = None)"
  proof -
    have "rayLines srt ls o' d = None \<longleftrightarrow> srt ?md = []"
      by (simp add: rayLines_def split: list.splits)
    with e show ?thesis by (simp add: md_empty_iff)
  qed
  have some: "(\<exists>i < length ls. \<exists>h. seg_hit ls o' d i = Some h \<and> hi_line info = i \<and>
              hi_position info = rh_hit h \<and> hi_distance info = rh_t h \<and> hi_u info = rh_u h) \<and>
          (\<forall>j < length ls. \<forall>h'. seg_hit ls o' d j = Some h' \<longrightarrow> hi_distance info \<le> rh_t h')"
    if r: "rayLines srt ls o' d = Some info" for info
  proof -
    from r obtain m rest where mr: "srt ?md = m # rest" and info: "info = snd m"
      by (auto simp: rayLines_def split: list.splits)
    have "m \<in> set (srt ?md)" unfolding mr by simp
    then have m_in: "m \<in> set ?md" unfolding st .
    from in_md_hit[OF m_in] obtain i h where ih: "i < length ls" "seg_hit ls o' d i = Some h"
        "hi_line (snd m) = i" "hi_position (snd m) = rh_hit h" "hi_distance (snd m) = rh_t h"
        "hi_u (snd m) = rh_u h"
      by auto
    have A: "\<exists>i < length ls. \<exists>h. seg_hit ls o' d i = Some h \<and>
        hi_line info = i \<and> hi_position info = rh_hit h \<and> hi_distance info = rh_t h \<and>
        hi_u info = rh_u h"
      unfolding info using ih by (intro exI[of _ i] exI[of _ h] conjI)
    have B: "\<forall>j < length ls. \<forall>h'. seg_hit ls o' d j = Some h' \<longrightarrow> hi_distance info \<le> rh_t h'"
    proof (intro allI impI)
      fix j h' assume j: "j < length ls" and h': "seg_hit ls o' d j = Some h'"
      from hit_in_md[OF j h'] obtain q where q: "q \<in> set ?md" "hi_distance (snd q) = rh_t h'"
        by (elim bexE)
      from q(1) have "q \<in> set (m # rest)" unfolding st[symmetric] mr .
      then have "q = m \<or> q \<in> set rest" by simp
      then show "hi_distance info \<le> rh_t h'"
      proof
        assume qm: "q = m"
        have "hi_distance (snd m) \<le> hi_distance (snd m)"
          by (rule fin_le_refl) (rule f[rule_format, OF m_in])
        then show ?thesis using q(2) unfolding info qm by simp
      next
        assume "q \<in> set rest"
        with so mr have "\<not> hi_distance (snd q) < hi_distance (snd m)" by simp
        then have "hi_distance (snd m) \<le> hi_distance (snd q)"
          by (rule fin_not_less[OF f[rule_format, OF m_in] f[rule_format, OF q(1)]])
        with q(2) show ?thesis unfolding info by simp
      qed
    qed
    from A B show ?thesis by (rule conjI)
  qed
  have hit: "\<exists>info. rayLines srt ls o' d = Some info \<and>
               (\<exists>i < length ls. \<exists>h. seg_hit ls o' d i = Some h \<and> hi_line info = i \<and>
                  hi_position info = rh_hit h \<and> hi_distance info = rh_t h \<and> hi_u info = rh_u h) \<and>
               (\<forall>j < length ls. \<forall>h'. seg_hit ls o' d j = Some h' \<longrightarrow>
                  hi_distance info \<le> rh_t h')"
    if ex: "\<exists>i < length ls. seg_hit ls o' d i \<noteq> None"
  proof -
    have "rayLines srt ls o' d \<noteq> None"
      unfolding none using ex by simp
    then obtain info where r: "rayLines srt ls o' d = Some info"
      by (cases "rayLines srt ls o' d") simp_all
    show ?thesis
      by (rule exI[of _ info], rule conjI, rule r, rule some[OF r])
  qed
  have miss: "rayLines srt ls o' d = None \<and>
            (\<forall>g W H x oor. lines g = ls \<and> position (viewer g) = o' \<and> column_ray (viewer g) W x = d
               \<longrightarrow> onDraw_column oor srt g W H x = Some [])"
    if no: "\<forall>i < length ls. seg_hit ls o' d i = None"
  proof -
    from no have n: "rayLines srt ls o' d = None"
      unfolding none .
    have "onDraw_column oor srt g W H x = Some []"
      if "lines g = ls \<and> position (viewer g) = o' \<and> column_ray (viewer g) W x = d"
      for g W H x oor
      using n that by (simp add: onDraw_column_def Let_def)
    then have "\<forall>g W H x oor. lines g = ls \<and> position (viewer g) = o' \<and> column_ray (viewer g) W x = d
               \<longrightarrow> onDraw_column oor srt g W H x = Some []"
      by (intro allI impI)
    with n show ?thesis by (rule conjI)
  qed
  show ?thesis
  proof (rule conjI)
    show "(\<exists>i < length ls. seg_hit ls o' d i \<noteq> None) \<longrightarrow>
            (\<exists>info. rayLines srt ls o' d = Some info \<and>
               (\<exists>i < length ls. \<exists>h. seg_hit ls o' d i = Some h \<and> hi_line info = i \<and>
                  hi_position info = rh_hit h \<and> hi_distance info = rh_t h \<and> hi_u info = rh_u h) \<and>
               (\<forall>j < length ls. \<forall>h'. seg_hit ls o' d j = Some h' \<longrightarrow>
                  hi_distance info \<le> rh_t h'))"
      by (rule impI) (rule hit)
    show "(\<forall>i < length ls. seg_hit ls o' d i = None) \<longrightarrow>
            rayLines srt ls o' d = None \<and>
            (\<forall>g W H x oor. lines g = ls \<and> position (viewer g) = o' \<and> column_ray (viewer g) W x = d
               \<longrightarrow> onDraw_column oor srt g W H x = Some [])"
      by (rule impI) (rule miss)
  qed
qed

text \<open>
  In the room of \<^verbatim>\<open>onSetup\<close>, from the centre and looking east: only the east wall is hit,
  at distance 24; the west wall lies on the line of the ray at parameter \<open>-24\<close> and is not
  a hit. From outside the room and looking away from it, nothing is hit and the column
  stays empty.
\<close>

theorem rayLines_nearest_hit_witness:
  "std_sort sort_by_distance \<and>
   create_lines [Block (Fin 0) (Fin 0) (Fin 6) (Fin 6)] = Some room \<and>
   seg_hit room (vec 24 24 0) (vec 1 0 0) 1 \<noteq> None \<and>
   raySeg_t1 (vec 24 24 0) (vec 1 0 0) (vec 0 48 0) (vec 0 0 0) = Fin (- 24) \<and>
   (\<exists>info. rayLines sort_by_distance room (vec 24 24 0) (vec 1 0 0) = Some info \<and>
      hi_line info = 1 \<and> hi_distance info = Fin 24 \<and> hi_position info = vec 48 24 0) \<and>
   rayLines sort_by_distance room (vec 56 24 0) (vec 1 0 0) = None \<and>
   onDraw_column (\<lambda>p. 0) sort_by_distance (game_with outside_viewer room) 320 240 160 = Some []"
proof -
  note S = std_sort_sort_by_distance
  have len: "length room = 4" by (simp add: room_def)
  have h1: "seg_hit room (vec 24 24 0) (vec 1 0 0) 1 \<noteq> None"
    by (simp add: room_centre_hits)
  have ex: "\<exists>i < length room. seg_hit room (vec 24 24 0) (vec 1 0 0) i \<noteq> None"
    using h1 len by (intro exI[of _ 1]) simp
  note T1 = rayLines_nearest_hit[OF S fin_vec_vec fin_vec_vec room_fin, of 24 24 0 1 0 0]
  from T1[THEN conjunct1, THEN mp, OF ex] obtain info where
    X: "rayLines sort_by_distance room (vec 24 24 0) (vec 1 0 0) = Some info \<and>
       (\<exists>i < length room. \<exists>h. seg_hit room (vec 24 24 0) (vec 1 0 0) i = Some h \<and>
           hi_line info = i \<and> hi_position info = rh_hit h \<and> hi_distance info = rh_t h \<and>
           hi_u info = rh_u h) \<and>
       (\<forall>j < length room. \<forall>h'. seg_hit room (vec 24 24 0) (vec 1 0 0) j = Some h' \<longrightarrow>
           hi_distance info \<le> rh_t h')" ..
  from X have r: "rayLines sort_by_distance room (vec 24 24 0) (vec 1 0 0) = Some info"
    by (rule conjunct1)
  from X[THEN conjunct2, THEN conjunct1] obtain i h where
    i: "i < length room" "seg_hit room (vec 24 24 0) (vec 1 0 0) i = Some h" "hi_line info = i"
       "hi_position info = rh_hit h" "hi_distance info = rh_t h"
    by auto
  from i(1) len have "i = 0 \<or> i = 1 \<or> i = 2 \<or> i = 3" by arith
  with i(2) have i1: "i = 1" by (auto simp: room_centre_hits)
  from i(2) have h: "h = \<lparr>rh_hit = vec 48 24 0, rh_norm = Vec3_angle (Fin (- 48)) (Fin 0),
      rh_t = Fin 24, rh_u = Fin (1 / 2)\<rparr>"
    unfolding i1 by (simp add: room_centre_hits)
  have near: "hi_line info = 1 \<and> hi_distance info = Fin 24 \<and> hi_position info = vec 48 24 0"
    using i(3,4,5) unfolding i1 h by simp
  have hit: "\<exists>info. rayLines sort_by_distance room (vec 24 24 0) (vec 1 0 0) = Some info \<and>
      hi_line info = 1 \<and> hi_distance info = Fin 24 \<and> hi_position info = vec 48 24 0"
    by (rule exI[of _ info], rule conjI, rule r, rule near)
  have far: "raySeg_t1 (vec 24 24 0) (vec 1 0 0) (vec 0 48 0) (vec 0 0 0) = Fin (- 24)"
    by (simp add: raySeg_defs vec_defs Let_def)
  note T2 = rayLines_nearest_hit[OF S fin_vec_vec fin_vec_vec room_fin, of 56 24 0 1 0 0]
  have no: "\<forall>i < length room. seg_hit room (vec 56 24 0) (vec 1 0 0) i = None"
    using room_outside_misses len by simp
  note M = T2[THEN conjunct2, THEN mp, OF no]
  have m1: "rayLines sort_by_distance room (vec 56 24 0) (vec 1 0 0) = None"
    by (rule M[THEN conjunct1])
  have g: "lines (game_with outside_viewer room) = room \<and>
           position (viewer (game_with outside_viewer room)) = vec 56 24 0 \<and>
           column_ray (viewer (game_with outside_viewer room)) 320 160 = vec 1 0 0"
    by (simp add: game_with_def outside_ray) (simp add: outside_viewer_def)
  have m2: "onDraw_column (\<lambda>p. 0) sort_by_distance (game_with outside_viewer room) 320 240 160
              = Some []"
    by (rule M[THEN conjunct2, THEN spec, THEN spec, THEN spec, THEN spec, THEN spec, THEN mp, OF g])
  show ?thesis
    by (intro conjI S room_created h1 far hit m1 m2)
qed

subsection \<open>C2: the intersection test\<close>

text \<open>
  What holds of \<^verbatim>\<open>raySeg\<close> for a divisor that is not zero is \<open>raySeg_finite\<close> and
  \<open>raySeg_point_on_ray\<close> above: the hit test, the position, the distance and the segment
  parameter. With a direction of unit length the distance is the Euclidean distance from
  the origin to the hit, and a ray aimed at the midpoint of the segment returns
  \<open>u = 1/2\<close>.
\<close>

lemma raySeg_unit_direction_distance:
  fixes o1 o2 d1 d2 a1 a2 b1 b2 :: real
  assumes nz: "(b2 - a2) * d1 - (b1 - a1) * d2 \<noteq> 0" and unit: "d1\<^sup>2 + d2\<^sup>2 = 1"
    and hit: "raySeg (vec o1 o2 0) (vec d1 d2 0) (vec a1 a2 0) (vec b1 b2 0) = Some h"
  shows "vlength (vsub (rh_hit h) (vec o1 o2 0)) = rh_t h"
proof -
  define t1 where "t1 = ((b1 - a1) * (o2 - a2) - (b2 - a2) * (o1 - a1)) / ((b2 - a2) * d1 - (b1 - a1) * d2)"
  define t2 where "t2 = ((o2 - a2) * d1 - (o1 - a1) * d2) / ((b2 - a2) * d1 - (b1 - a1) * d2)"
  from hit have t: "0 \<le> t1" and h: "rh_hit h = vec (a1 + (b1 - a1) * t2) (a2 + (b2 - a2) * t2) 0"
    "rh_t h = Fin t1"
    unfolding raySeg_finite[OF nz] t1_def t2_def by (auto simp: Let_def split: if_splits)
  have p: "a1 + (b1 - a1) * t2 = o1 + d1 * t1" "a2 + (b2 - a2) * t2 = o2 + d2 * t1"
    using raySeg_point_on_ray[OF nz] unfolding t1_def t2_def by blast+
  have "(d1 * t1)\<^sup>2 + (d2 * t1)\<^sup>2 = (d1\<^sup>2 + d2\<^sup>2) * t1\<^sup>2"
    by (simp add: power2_eq_square algebra_simps)
  then have "sqrt ((d1 * t1)\<^sup>2 + (d2 * t1)\<^sup>2) = t1"
    using unit t by simp
  then show ?thesis
    unfolding h p by (simp add: vlength_def vec_defs power2_eq_square not_less)
qed

lemma raySeg_midpoint:
  fixes o1 o2 d1 d2 a1 a2 b1 b2 s :: real
  assumes nz: "(b2 - a2) * d1 - (b1 - a1) * d2 \<noteq> 0" and s: "0 \<le> s"
    and aim: "o1 + d1 * s = (a1 + b1) / 2" "o2 + d2 * s = (a2 + b2) / 2"
  shows "\<exists>h. raySeg (vec o1 o2 o3) (vec d1 d2 d3) (vec a1 a2 a3) (vec b1 b2 b3) = Some h \<and>
             rh_u h = Fin (1 / 2) \<and> rh_t h = Fin s"
proof -
  let ?D = "(b2 - a2) * d1 - (b1 - a1) * d2"
  have o: "o1 = (a1 + b1) / 2 - d1 * s" "o2 = (a2 + b2) / 2 - d2 * s"
    using aim by linarith+
  have t2: "((o2 - a2) * d1 - (o1 - a1) * d2) / ?D = 1 / 2"
    using nz unfolding o by (simp add: field_simps)
  have t1: "((b1 - a1) * (o2 - a2) - (b2 - a2) * (o1 - a1)) / ?D = s"
    using nz unfolding o by (simp add: field_simps)
  show ?thesis
    unfolding raySeg_finite[OF nz] t1 t2 using s by (simp add: Let_def)
qed

text \<open>
  Claim C2. For a ray and a segment with a divisor that is not zero, \<^verbatim>\<open>raySeg\<close> reports a
  hit exactly when \<open>t1 \<ge> 0\<close> and \<open>0 \<le> t2 \<le> 1\<close>, and returns the position \<open>a + v2 * t2\<close>,
  the normal \<open>perp(v2) = (-v2.y, v2.x, 0)\<close>, the distance \<open>t1\<close> and the parameter \<open>t2\<close>.
  The normal is not the one returned: for the ray from \<open>(1/2, -1)\<close> in direction \<open>(0, 1)\<close>
  and the segment from \<open>(0, 0)\<close> to \<open>(1, 0)\<close> the program returns the normal
  \<open>(cos 0, sin 0, 1) = (1, 0, 1)\<close>, and \<open>perp(v2)\<close> is \<open>(0, 1, 0)\<close>.
\<close>

theorem raySeg_normal_from_angle_constructor:
  "raySeg (vec (1 / 2) (- 1) 0) (vec 0 1 0) (vec 0 0 0) (vec 1 0 0) =
     Some \<lparr>rh_hit = vec (1 / 2) 0 0, rh_norm = vec 1 0 1, rh_t = Fin 1, rh_u = Fin (1 / 2)\<rparr> \<and>
   vec 1 0 1 \<noteq>
     Vec3_xyz (- vy (vsub (vec 1 0 0) (vec 0 0 0))) (vx (vsub (vec 1 0 0) (vec 0 0 0))) (Fin 0)"
  by (simp add: raySeg_defs vec_defs Let_def)

subsection \<open>C3: the parallel case\<close>

text \<open>
  Claim C3, as the program has it. For every ray and segment whose divisor
  \<open>dot(v2, v3)\<close> is zero, \<^verbatim>\<open>raySeg\<close> returns no hit and no error. It does so without a
  guard: both quotients are computed with the zero divisor, neither is a finite number,
  and the hit test is false for them.
\<close>

theorem raySeg_parallel_no_hit:
  assumes "raySeg_d23 o' d a b = Fin 0"
  shows "raySeg o' d a b = None \<and> \<not> is_fin (raySeg_t1 o' d a b) \<and> \<not> is_fin (raySeg_t2 o' d a b)"
proof -
  have "\<not> is_fin (raySeg_t1 o' d a b)" "\<not> is_fin (raySeg_t2 o' d a b)"
    unfolding raySeg_t1_def raySeg_t2_def assms Let_def by (rule div_zero_not_fin)+
  moreover from this(2) have "raySeg o' d a b = None"
    using nonfin_fails[of "raySeg_t2 o' d a b"] by (simp add: raySeg_def Let_def)
  ultimately show ?thesis by blast
qed

theorem raySeg_parallel_no_hit_witness:
  "raySeg_d23 (vec 0 0 0) (vec 1 0 0) (vec 0 1 0) (vec 1 1 0) = Fin 0 \<and>
   raySeg (vec 0 0 0) (vec 1 0 0) (vec 0 1 0) (vec 1 1 0) = None"
proof -
  have z: "raySeg_d23 (vec 0 0 0) (vec 1 0 0) (vec 0 1 0) (vec 1 1 0) = Fin 0"
    by (simp add: raySeg_d23_vec)
  from raySeg_parallel_no_hit[OF z] z show ?thesis by blast
qed

text \<open>
  The claim as first stated has the division guarded. For a ray along the x axis and a
  segment parallel to it the divisor is zero and both quotients are computed: they are
  the negative infinity.
\<close>

theorem raySeg_parallel_divides_by_zero:
  "raySeg_d23 (vec 0 0 0) (vec 1 0 0) (vec 0 1 0) (vec 1 1 0) = Fin 0 \<and>
   raySeg_t1 (vec 0 0 0) (vec 1 0 0) (vec 0 1 0) (vec 1 1 0) = NInf \<and>
   raySeg_t2 (vec 0 0 0) (vec 1 0 0) (vec 0 1 0) (vec 1 1 0) = NInf"
  by (simp add: raySeg_defs vec_defs Let_def inf_of_def)

subsection \<open>C4: wrap-around sampling\<close>

lemma get_two_texel: "get two_texel k y = Some (if odd k then vec 1 1 1 else vec 0 0 0)"
proof -
  have m: "k mod 2 = of_bool (odd k)" by (rule mod_2_eq_odd)
  show ?thesis
    by (cases "odd k")
       (simp_all add: get_def two_texel_def Let_def m channel_def of_u8_def vec_defs)
qed

lemma sample_two_texel_in_range:
  "sample oor two_texel (Fin (3 / 4)) (Fin 0) = Some (vec (1 / 2) (1 / 2) (1 / 2))"
  by (simp add: sample_def Let_def get_two_texel floor_to_u32_def of_u32_def vec_defs)
     (simp add: two_texel_def)

lemma sample_two_texel_negative:
  "sample oor two_texel (Fin (- 1 / 4)) (Fin 0) =
     Some (let k = real (unat (oor (Fin (- 1 / 2))))
           in if odd (oor (Fin (- 1 / 2))) then vec (3 / 2 + k) (3 / 2 + k) (3 / 2 + k)
              else vec (- 1 / 2 - k) (- 1 / 2 - k) (- 1 / 2 - k))"
  by (simp add: sample_def Let_def get_two_texel floor_to_u32_def of_u32_def)
     (simp add: two_texel_def vec_defs)

text \<open>
  Claim C4. For a texture that is not empty and all coordinates, also negative ones,
  \<open>sample(u, v) = sample(u + 1, v)\<close>. On the texture of one black and one white pixel
  this fails at \<open>u = -1/4\<close>, \<open>v = 0\<close>: \<open>floor(u * width)\<close> is \<open>-1\<close>, which no \<^verbatim>\<open>u32\<close>
  holds, and whatever value the conversion produces, the weight \<open>ur = u * width - x\<close> is
  negative and the result is not the blend \<open>(1/2, 1/2, 1/2)\<close> sampled at \<open>u = 3/4\<close>.
\<close>

theorem sample_negative_u_not_wrapped:
  "sample oor two_texel (Fin (- 1 / 4)) (Fin 0) \<noteq> sample oor two_texel (Fin (- 1 / 4 + 1)) (Fin 0)"
proof -
  have e: "(- 1 / 4 + 1 :: real) = 3 / 4" by simp
  have "0 \<le> (unsigned (oor (Fin (- 1 / 2))) :: real)"
    by (rule unsigned_real_nonneg)
  then show ?thesis
    unfolding e sample_two_texel_in_range sample_two_texel_negative
    by (auto simp: Let_def vec_def)
qed
subsection \<open>C5: the wall fog\<close>

lemma view_thf_wide: "view_thf wide_viewer = Fin (tan (120 * 0.0174533 / 2))"
  by (simp add: view_thf_def wide_viewer_def rad_def)

lemma wide_ray: "column_ray wide_viewer 320 160 = vec 1 0 0"
  by (simp add: column_ray_def wide_viewer_def view_thf_def rad_def rotateZ_def of_nat32_def
        Let_def vec_defs)

lemma wide_hit:
  "rayLines sort_by_distance [far_wall] (vec 6 0 0) (vec 1 0 0) =
     Some \<lparr>hi_line = 0, hi_position = vec 56 0 0, hi_normal = Vec3_angle (Fin (- 16)) (Fin 0),
           hi_distance = Fin 50, hi_u = Fin (1 / 2), hi_length = Fin 4\<rparr>"
proof -
  have s: "sqrt 256 = 16"
    by (rule real_sqrt_unique) simp_all
  show ?thesis
    by (simp add: rayLines_def rayLines_md_def line_hit_def far_wall_def edge_def blockSize_def
          raySeg_defs vec_defs Let_def sort_by_distance_def vlength_def s)
qed

text \<open>
  Claim C5, as the program has it. For a column whose nearest hit was accepted (finite
  distance below \<^verbatim>\<open>maxDepth\<close>) and a field of view \<open>phi\<close> with \<open>0 \<le> phi < pi\<close>, the wall
  fog \<open>1 - d / maxDepth\<close> with \<open>d = distance * tan(phi / 2)\<close> is non-negative exactly when
  \<open>d \<le> maxDepth\<close>. The cutoff bounds the distance, not \<open>d\<close>: it makes the fog
  non-negative when \<open>tan(phi / 2) \<le> 1\<close>, that is for \<open>phi \<le> pi / 2\<close>, and not on the rest
  of the range that \<^verbatim>\<open>onUpdate\<close> allows.
\<close>

theorem wall_fog_nonneg_iff:
  assumes "hi_distance info = Fin dst" "fov v = Fin phi" "0 \<le> phi" "phi < pi"
  shows "(Fin 0 \<le> wall_fog (view_thf v) info \<longleftrightarrow> dst * tan (phi / 2) \<le> 60) \<and>
         (dst < 60 \<and> phi \<le> pi / 2 \<longrightarrow> Fin 0 \<le> wall_fog (view_thf v) info)"
proof -
  have iff: "Fin 0 \<le> wall_fog (view_thf v) info \<longleftrightarrow> dst * tan (phi / 2) \<le> 60"
    by (simp add: view_thf_def wall_fog_def wall_d_def maxDepth_def assms(1,2))
  have t0: "0 \<le> tan (phi / 2)"
    using assms(3,4) by (intro tan_pos_pi2_le) linarith+
  have "dst * tan (phi / 2) \<le> 60" if d: "dst < 60" and p: "phi \<le> pi / 2"
  proof -
    have "tan (phi / 2) \<le> tan (pi / 4)"
      using assms(3) p pi_gt_zero by (intro tan_mono_le) linarith+
    then have t1: "tan (phi / 2) \<le> 1" by (simp add: tan_45)
    show ?thesis
    proof (cases "0 \<le> dst")
      case True
      then have "dst * tan (phi / 2) \<le> dst * 1" using t1 by (intro mult_left_mono) auto
      with d show ?thesis by simp
    next
      case False
      then have "dst * tan (phi / 2) \<le> 0" using t0 by (simp add: mult_le_0_iff)
      then show ?thesis by simp
    qed
  qed
  with iff show ?thesis by simp
qed

theorem wall_fog_nonneg_iff_witness:
  "(0::real) \<le> 1 \<and> (1::real) < pi \<and> (1::real) \<le> pi / 2 \<and> (50::real) < 60 \<and>
   Fin 0 \<le> wall_fog (view_thf \<lparr>position = vec 6 0 0, rotation = Fin 0, fov = Fin 1\<rparr>)
              \<lparr>hi_line = 0, hi_position = vec 56 0 0, hi_normal = Vec3_angle (Fin (- 16)) (Fin 0),
               hi_distance = Fin 50, hi_u = Fin (1 / 2), hi_length = Fin 4\<rparr>"
proof -
  have p: "(1::real) < pi" "(1::real) \<le> pi / 2"
    using pi_ge_3 by simp_all
  have z: "(0::real) \<le> 1" "(50::real) < 60" by simp_all
  have d: "hi_distance \<lparr>hi_line = 0, hi_position = vec 56 0 0,
      hi_normal = Vec3_angle (Fin (- 16)) (Fin 0), hi_distance = Fin 50, hi_u = Fin (1 / 2),
      hi_length = Fin 4\<rparr> = Fin 50"
    by simp
  have f: "fov \<lparr>position = vec 6 0 0, rotation = Fin 0, fov = Fin 1\<rparr> = Fin 1"
    by simp
  note T = wall_fog_nonneg_iff[OF d f z(1) p(1)]
  have "Fin 0 \<le> wall_fog (view_thf \<lparr>position = vec 6 0 0, rotation = Fin 0, fov = Fin 1\<rparr>)
              \<lparr>hi_line = 0, hi_position = vec 56 0 0, hi_normal = Vec3_angle (Fin (- 16)) (Fin 0),
               hi_distance = Fin 50, hi_u = Fin (1 / 2), hi_length = Fin 4\<rparr>"
    by (rule T[THEN conjunct2, THEN mp, OF conjI[OF z(2) p(2)]])
  with p z show ?thesis by simp
qed

text \<open>
  The claim as first stated covers the whole clamped range. At its upper end,
  \<^verbatim>\<open>rad(120)\<close>, a wall 50 units ahead is accepted by the cutoff (50 is less than 60), its
  perspective distance is \<open>50 * tan(rad(120) / 2) \<ge> 75\<close>, and the fog is negative.
\<close>

theorem wall_fog_negative_at_widest_fov:
  "rad 20 \<le> fov wide_viewer \<and> fov wide_viewer \<le> rad 120 \<and>
   update_fov (\<lambda>k. k = SDLK_x) (Fin (1 / 60)) wide_viewer = wide_viewer \<and>
   rayLines sort_by_distance [far_wall] (position wide_viewer) (column_ray wide_viewer 320 160)
     \<noteq> None \<and>
   hi_distance (the (rayLines sort_by_distance [far_wall] (position wide_viewer)
                       (column_ray wide_viewer 320 160))) = Fin 50 \<and>
   Fin 50 < maxDepth \<and>
   wall_fog (view_thf wide_viewer)
     (the (rayLines sort_by_distance [far_wall] (position wide_viewer)
             (column_ray wide_viewer 320 160))) < Fin 0"
proof -
  have p: "position wide_viewer = vec 6 0 0" by (simp add: wide_viewer_def)
  have r: "rad 20 \<le> fov wide_viewer \<and> fov wide_viewer \<le> rad 120"
    by (simp add: wide_viewer_def rad_def)
  have u: "update_fov (\<lambda>k. k = SDLK_x) (Fin (1 / 60)) wide_viewer = wide_viewer"
    by (simp add: update_fov_def wide_viewer_def rad_def Let_def)
  have f: "wall_fog (view_thf wide_viewer)
      \<lparr>hi_line = 0, hi_position = vec 56 0 0, hi_normal = Vec3_angle (Fin (- 16)) (Fin 0),
       hi_distance = Fin 50, hi_u = Fin (1 / 2), hi_length = Fin 4\<rparr> < Fin 0"
    using thf_120 by (simp add: view_thf_wide wall_fog_def wall_d_def maxDepth_def)
  show ?thesis
    unfolding p wide_ray wide_hit option.sel using r u f
    by (simp add: maxDepth_def)
qed

subsection \<open>C6: the collision check\<close>

lemma circleLines_spec:
  "\<forall>l \<in> set ls. fin_vec (ln_a l) \<and> fin_vec (ln_b l) \<Longrightarrow>
   circleLines ls (vec p1 p2 p3) (Fin r) =
     (\<exists>l \<in> set ls. segment_blocks (world (ln_a l)) (world (ln_b l)) (p1, p2, p3) r)"
proof (induction ls)
  case Nil
  then show ?case by simp
next
  case (Cons l ls)
  from Cons.prems obtain a1 a2 a3 b1 b2 b3 where
    ab: "ln_a l = vec a1 a2 a3" "ln_b l = vec b1 b2 b3"
    by (auto elim!: fin_vecE)
  from Cons have IH: "circleLines ls (vec p1 p2 p3) (Fin r) =
     (\<exists>l \<in> set ls. segment_blocks (world (ln_a l)) (world (ln_b l)) (p1, p2, p3) r)"
    by simp
  show ?case
    using circle_step[where ?a1.0=a1 and ?a2.0=a2 and ?a3.0=a3 and ?b1.0=b1 and ?b2.0=b2 and ?b3.0=b3
                        and ?p1.0=p1 and ?p2.0=p2 and ?p3.0=p3 and r=r]
    by (auto simp: ab IH split: prod.splits)
qed

text \<open>
  Claim C6. For lines of finite coordinates, a position \<open>p\<close> and a radius \<open>r\<close>, the
  collision check rejects \<open>p\<close> exactly when for some line, with its endpoints in world
  units, the projection of \<open>p\<close> onto the line through the endpoints has a parameter in
  \<open>[0, 1]\<close> and lies at a distance less than \<open>r\<close> from \<open>p\<close>. Lines whose parameter is
  outside \<open>[0, 1]\<close> never block, however close \<open>p\<close> is to their extension.
\<close>

theorem circleLines_rejects_iff:
  assumes "\<forall>l \<in> set ls. fin_vec (ln_a l) \<and> fin_vec (ln_b l)"
  shows "(circleLines ls (vec p1 p2 p3) (Fin r) \<longleftrightarrow>
            (\<exists>l \<in> set ls. segment_blocks (world (ln_a l)) (world (ln_b l)) (p1, p2, p3) r)) \<and>
         ((\<forall>l \<in> set ls. \<not> (0 \<le> proj_t (world (ln_a l)) (world (ln_b l)) (p1, p2, p3) \<and>
                              proj_t (world (ln_a l)) (world (ln_b l)) (p1, p2, p3) \<le> 1))
            \<longrightarrow> \<not> circleLines ls (vec p1 p2 p3) (Fin r))"
  unfolding circleLines_spec[OF assms] by (auto simp: segment_blocks_def)

lemma short_wall_world:
  "world (ln_a short_wall) = (0, - 8, 0)" "world (ln_b short_wall) = (0, 8, 0)"
  by (simp_all add: short_wall_def edge_def world_vec)

theorem circleLines_rejects_iff_witness:
  "fin_vec (ln_a short_wall) \<and> fin_vec (ln_b short_wall) \<and>
   circleLines [short_wall] (vec (1 / 2) 0 0) (Fin (4 / 5)) \<and>
   \<not> circleLines [short_wall] (vec 1 0 0) (Fin (4 / 5)) \<and>
   proj_t (world (ln_a short_wall)) (world (ln_b short_wall)) (1 / 1000, 20, 0) = 7 / 4 \<and>
   \<not> circleLines [short_wall] (vec (1 / 1000) 20 0) (Fin (4 / 5))"
proof -
  have f: "\<forall>l \<in> set [short_wall]. fin_vec (ln_a l) \<and> fin_vec (ln_b l)"
    by (simp add: short_wall_def edge_def)
  show ?thesis
    using circleLines_rejects_iff[OF f, of "1 / 2" 0 0 "4 / 5"]
      circleLines_rejects_iff[OF f, of 1 0 0 "4 / 5"]
      circleLines_rejects_iff[OF f, of "1 / 1000" 20 0 "4 / 5"] f
    by (simp add: short_wall_world segment_blocks_def proj_t_def proj_point_def euclid_def
          power2_eq_square real_sqrt_divide)
qed
subsection \<open>C7: rolling back a rejected move\<close>

lemmas r_defs = vround_def vadd_r_def vsub_r_def vscale_r_def dot_r_def vlength_r_def
  Vec3_angle_r_def closestPoint_r_def move_delta_r_def radius_r_def update_position_r_def

text \<open>Without rounding the definitions of the rounded update step are the exact ones.\<close>

lemma rd_id [simp]: "rd (\<lambda>x. x) p = p"
  by (cases p) simp_all

lemma vround_id [simp]: "vround (\<lambda>x. x) p = p"
  by (simp add: vround_def Vec3_xyz_def)

lemma circleLines_r_id: "circleLines_r (\<lambda>x. x) ls o' radius = circleLines ls o' radius"
  by (induction ls)
     (simp_all add: closestPoint_r_def closestPoint_def vadd_r_def vsub_r_def vscale_r_def
        dot_r_def vlength_r_def dot_def vlength_def Let_def)

lemma update_position_r_id: "update_position_r (\<lambda>x. x) isHeld dt ls v = update_position isHeld dt ls v"
  by (simp add: update_position_r_def update_position_def move_delta_r_def radius_r_def
        vadd_r_def vsub_r_def vscale_r_def Vec3_angle_r_def Vec3_angle_def circleLines_r_id Let_def)

lemma vsub_vadd_fin: "fin_vec p \<Longrightarrow> fin_vec q \<Longrightarrow> vsub (vadd p q) q = p"
  by (auto elim!: fin_vecE simp: vec_defs)

lemma vadd_vsub_fin: "fin_vec p \<Longrightarrow> fin_vec q \<Longrightarrow> vadd (vsub p q) q = p"
  by (auto elim!: fin_vecE simp: vec_defs)

text \<open>
  What the code sets out to do: it takes the displacement back by the opposite operation,
  and in exact arithmetic that restores the position.
\<close>

lemma rollback_exact_arithmetic:
  assumes p: "fin_vec (position v)" and d: "fin_vec delta"
    and e: "delta = vscale (vscale (Vec3_angle (rotation v) (Fin 0)) dt) (Fin 4)"
  shows "(isHeld SDLK_UP \<and> circleLines ls (vadd (position v) delta) (Fin 0.8)
            \<longrightarrow> position (update_position isHeld dt ls v) = position v) \<and>
         (\<not> isHeld SDLK_UP \<and> isHeld SDLK_DOWN \<and> circleLines ls (vsub (position v) delta) (Fin 0.8)
            \<longrightarrow> position (update_position isHeld dt ls v) = position v)"
  by (simp add: update_position_def Let_def e[symmetric] vsub_vadd_fin[OF p d] vadd_vsub_fin[OF p d])

lemma creep_dt_eval: "creep_dt = Fin (8947849 / 2 ^ 29)"
  by (simp add: creep_dt_def round64_neg_exp[where n=6] round32_eval rne_def)

lemma creep_delta: "move_delta_r round32 creep_dt creep_viewer = vec (8947849 / 2 ^ 27) 0 0"
  by (simp add: creep_dt_eval r_defs creep_viewer_def vec_defs round32_eval rne_def)

lemma creep_start_binary32: "vround round32 (position creep_viewer) = position creep_viewer"
  by (simp add: creep_viewer_def vround_def vec_defs round32_eval rne_def)

lemma creep_sum:
  "vadd_r round32 (position creep_viewer) (vec (8947849 / 2 ^ 27) 0 0) = vec (8458513 / 2 ^ 20) 0 0"
  by (simp add: creep_viewer_def vadd_r_def vround_def vec_defs round32_eval rne_def)

lemma creep_collides:
  "circleLines_r round32 [creep_wall] (vec (8458513 / 2 ^ 20) 0 0) (radius_r round32)"
  by (simp add: r_defs creep_wall_def edge_def blockSize_def Let_def vec_defs round32_eval
        rne_def sqrt_9_16)

lemma creep_back:
  "vsub_r round32 (vec (8458513 / 2 ^ 20) 0 0) (vec (8947849 / 2 ^ 27) 0 0) = vec 8 0 0"
  by (simp add: vsub_r_def vround_def vec_defs round32_eval rne_def)

lemma creep_start_distance: "round32 (sqrt (5594741 / 8388608)) = 1712675 / 2097152"
proof -
  let ?s = "sqrt (5594741 / 8388608 :: real)"
  have lo: "27402799 / 33554432 < ?s"
    by (rule real_less_rsqrt) (simp add: power2_eq_square)
  have hi: "?s < 13701400 / 16777216"
    by (rule real_less_lsqrt) (simp_all add: power2_eq_square)
  have f: "\<lfloor>?s * 2 ^ 24\<rfloor> = 13701399"
    unfolding floor_eq_iff using lo hi by simp
  have r: "rne (?s * 2 ^ (1 + 23)) = 13701400"
    unfolding rne_def Let_def using f lo by simp
  have a: "1 / 2 ^ 1 \<le> \<bar>?s\<bar>" "\<bar>?s\<bar> < 2 / 2 ^ 1"
    using lo hi by simp_all
  show ?thesis
    unfolding round32_neg_exp[OF a] r by simp
qed

lemma creep_start_free:
  "\<not> circleLines_r round32 [creep_wall] (position creep_viewer) (radius_r round32)"
  by (simp add: r_defs creep_viewer_def creep_wall_def edge_def blockSize_def Let_def vec_defs
        round32_eval rne_def creep_start_distance)

text \<open>
  Claim C7. In every update step in which the viewer moves and the destination collides,
  the displacement is rolled back entirely: the position after the update equals the
  position before it, with no residual offset from applying and then subtracting the
  delta. The program subtracts the delta it has just added, and in single precision that
  does not always give the position back. The viewer stands at \<open>x = 8 - 1 / 2 ^ 21\<close>, a
  binary32 value, clear of the wall, and moves east with the time step of the main loop:
  the sum \<open>x + delta\<close> is rounded up to \<open>8458513 / 2 ^ 20\<close>, this destination collides,
  the difference is rounded to 8, and the viewer ends at \<open>x = 8\<close>, nearer to the wall than
  it started.
\<close>

theorem rollback_leaves_rounding_residue:
  "creep_dt = Fin (8947849 / 2 ^ 29) \<and>
   position creep_viewer = vec (8 - 1 / 2 ^ 21) 0 0 \<and>
   vround round32 (position creep_viewer) = position creep_viewer \<and>
   \<not> circleLines_r round32 [creep_wall] (position creep_viewer) (radius_r round32) \<and>
   vadd_r round32 (position creep_viewer) (move_delta_r round32 creep_dt creep_viewer) =
     vec (8458513 / 2 ^ 20) 0 0 \<and>
   circleLines_r round32 [creep_wall]
     (vadd_r round32 (position creep_viewer) (move_delta_r round32 creep_dt creep_viewer))
     (radius_r round32) \<and>
   position (update_position_r round32 only_up creep_dt [creep_wall] creep_viewer) = vec 8 0 0 \<and>
   position (update_position_r round32 only_up creep_dt [creep_wall] creep_viewer) \<noteq>
     position creep_viewer"
proof -
  have p: "position creep_viewer = vec (8 - 1 / 2 ^ 21) 0 0"
    by (simp add: creep_viewer_def)
  have q: "vadd_r round32 (position creep_viewer) (move_delta_r round32 creep_dt creep_viewer) =
      vec (8458513 / 2 ^ 20) 0 0"
    unfolding creep_delta by (rule creep_sum)
  have c: "circleLines_r round32 [creep_wall]
      (vadd_r round32 (position creep_viewer) (move_delta_r round32 creep_dt creep_viewer))
      (radius_r round32)"
    unfolding q by (rule creep_collides)
  have b: "vsub_r round32
      (vadd_r round32 (position creep_viewer) (move_delta_r round32 creep_dt creep_viewer))
      (move_delta_r round32 creep_dt creep_viewer) = vec 8 0 0"
    unfolding q unfolding creep_delta by (rule creep_back)
  have "position (update_position_r round32 only_up creep_dt [creep_wall] creep_viewer) =
      vsub_r round32
        (vadd_r round32 (position creep_viewer) (move_delta_r round32 creep_dt creep_viewer))
        (move_delta_r round32 creep_dt creep_viewer)"
    using c by (simp add: update_position_r_def only_up_def Let_def del: circleLines_r.simps)
  then have e: "position (update_position_r round32 only_up creep_dt [creep_wall] creep_viewer) =
      vec 8 0 0"
    unfolding b .
  have n: "vec 8 0 0 \<noteq> vec (8 - 1 / 2 ^ 21) 0 0"
    by (simp add: vec_def)
  have ne: "position (update_position_r round32 only_up creep_dt [creep_wall] creep_viewer) \<noteq>
     position creep_viewer"
    unfolding e p by (rule n)
  show ?thesis
    by (intro conjI creep_dt_eval p creep_start_binary32 creep_start_free q c e ne)
qed

subsection \<open>C8: the rectangle\<close>

lemma Block_eval:
  "Block (Fin x) (Fin y) (Fin w) (Fin h) =
     \<lparr>position = vec x y 0, rotation = Fin 0, texture = Texture_default,
      vertices = [\<lparr>vert_pos = vec 0 0 0, vert_u = Fin 0\<rparr>,
                  \<lparr>vert_pos = vec w 0 0, vert_u = Fin (w * 2)\<rparr>,
                  \<lparr>vert_pos = vec w 0 0, vert_u = Fin 0\<rparr>,
                  \<lparr>vert_pos = vec w h 0, vert_u = Fin (h * 2)\<rparr>,
                  \<lparr>vert_pos = vec w h 0, vert_u = Fin 0\<rparr>,
                  \<lparr>vert_pos = vec 0 h 0, vert_u = Fin (w * 2)\<rparr>,
                  \<lparr>vert_pos = vec 0 h 0, vert_u = Fin 0\<rparr>,
                  \<lparr>vert_pos = vec 0 0 0, vert_u = Fin (h * 2)\<rparr>],
      indices = [0, 1, 2, 3, 4, 5, 6, 7]\<rparr>"
  by (simp add: Block_def Let_def addVert_def addIndex_def set_position_xy_def Model_new_def vec_defs)

lemma Block_lines:
  "create_lines [Block (Fin x) (Fin y) (Fin w) (Fin h)] =
     Some [edge x y (x + w) y (2 * w), edge (x + w) y (x + w) (y + h) (2 * h),
           edge (x + w) (y + h) x (y + h) (2 * w), edge x (y + h) x y (2 * h)]"
  by (simp add: Block_eval edge_def) (simp add: vec_defs add.commute mult.commute)

lemma edge_length_x: "0 \<le> w \<Longrightarrow> vlength (vsub (vec (x + w) y 0) (vec x y 0)) = Fin w"
  by (simp add: vlength_def vec_defs not_less)

lemma edge_length: 
  "vlength (vsub (vec b1 b2 0) (vec a1 a2 0)) = Fin (sqrt ((b1 - a1)\<^sup>2 + (b2 - a2)\<^sup>2))"
  by (simp add: vlength_def vec_defs not_less power2_eq_square)

text \<open>
  Claim C8. For every origin \<open>(x, y)\<close>, width \<open>w \<ge> 0\<close> and height \<open>h \<ge> 0\<close> the rectangle
  has 8 vertices and 8 indices, and its lines are the four edges of the axis-aligned
  outline with corners \<open>(x, y)\<close> and \<open>(x + w, y + h)\<close>. On every edge U starts again at
  0, at the vertex that repeats the corner where the edge before ended, and reaches
  2 times the length of the edge at its other end: the edges are mapped one by one, not
  along the perimeter. The U spans add up to \<open>2 * (w + h) * 2\<close>.
\<close>

theorem Block_outline:
  assumes "0 \<le> w" "0 \<le> h"
  shows "length (vertices (Block (Fin x) (Fin y) (Fin w) (Fin h))) = 8 \<and>
         length (indices (Block (Fin x) (Fin y) (Fin w) (Fin h))) = 8 \<and>
         create_lines [Block (Fin x) (Fin y) (Fin w) (Fin h)] =
           Some [edge x y (x + w) y (2 * w), edge (x + w) y (x + w) (y + h) (2 * h),
                 edge (x + w) (y + h) x (y + h) (2 * w), edge x (y + h) x y (2 * h)] \<and>
         (\<forall>l \<in> set (the (create_lines [Block (Fin x) (Fin y) (Fin w) (Fin h)])).
             ln_u0 l = Fin 0 \<and> ln_u1 l = Fin 2 * vlength (vsub (ln_b l) (ln_a l))) \<and>
         u_coverage (the (create_lines [Block (Fin x) (Fin y) (Fin w) (Fin h)])) =
           Fin (2 * (w + h) * 2)"
proof -
  have n: "length (vertices (Block (Fin x) (Fin y) (Fin w) (Fin h))) = 8"
    "length (indices (Block (Fin x) (Fin y) (Fin w) (Fin h))) = 8"
    by (simp_all add: Block_eval)
  have u: "\<forall>l \<in> set [edge x y (x + w) y (2 * w), edge (x + w) y (x + w) (y + h) (2 * h),
                 edge (x + w) (y + h) x (y + h) (2 * w), edge x (y + h) x y (2 * h)].
             ln_u0 l = Fin 0 \<and> ln_u1 l = Fin 2 * vlength (vsub (ln_b l) (ln_a l))"
    using assms by (simp add: edge_def edge_length)
  have c: "u_coverage [edge x y (x + w) y (2 * w), edge (x + w) y (x + w) (y + h) (2 * h),
                 edge (x + w) (y + h) x (y + h) (2 * w), edge x (y + h) x y (2 * h)] =
           Fin (2 * (w + h) * 2)"
    by (simp add: edge_def)
  show ?thesis
    unfolding Block_lines option.sel using n u c by blast
qed

theorem Block_outline_witness:
  "(0::real) \<le> 6 \<and>
   length (vertices (Block (Fin 0) (Fin 0) (Fin 6) (Fin 6))) = 8 \<and>
   create_lines [Block (Fin 0) (Fin 0) (Fin 6) (Fin 6)] = Some room \<and>
   length room = 4 \<and>
   ln_u0 (room ! 0) = Fin 0 \<and> ln_u1 (room ! 0) = Fin 12 \<and>
   vlength (vsub (ln_b (room ! 0)) (ln_a (room ! 0))) = Fin 6 \<and>
   u_coverage room = Fin 48"
proof -
  have p: "(0::real) \<le> 6" by simp
  have v: "vlength (vsub (ln_b (room ! 0)) (ln_a (room ! 0))) = Fin 6"
    by (simp add: room_def edge_def edge_length)
  have r: "[edge 0 0 (0 + 6) 0 (2 * 6), edge (0 + 6) 0 (0 + 6) (0 + 6) (2 * 6),
            edge (0 + 6) (0 + 6) 0 (0 + 6) (2 * 6), edge 0 (0 + 6) 0 0 (2 * 6)] = room"
    by (simp add: room_def)
  have e: "Fin (2 * (6 + 6) * 2) = Fin 48" by simp
  from Block_outline[OF p p, of 0 0, unfolded r e option.sel] v show ?thesis
    by (simp add: room_def edge_def)
qed

subsection \<open>C9: textures without pixels\<close>

text \<open>
  Claim C9. For a texture whose width or height is zero and all finite coordinates,
  every pixel fetch returns the magenta \<open>(1, 0, 1)\<close> without reading the buffer, and
  \<^verbatim>\<open>sample\<close> returns it too: the weights of the blend add up to one.
\<close>

theorem sample_zero_sized_sentinel:
  assumes "m_width t = 0 \<or> m_height t = 0"
  shows "(\<forall>x y. get t x y = Some (vec 1 0 1)) \<and> sample oor t (Fin u) (Fin v) = Some (vec 1 0 1)"
proof -
  have g: "get t x y = Some (vec 1 0 1)" for x y
    using assms by (auto simp: get_def vec_defs)
  have "sample oor t (Fin u) (Fin v) = Some (vec 1 0 1)"
    by (simp add: sample_def g Let_def of_u32_def vec_defs algebra_simps)
  with g show ?thesis by blast
qed

theorem sample_zero_sized_sentinel_witness:
  "(m_width Texture_default = 0 \<or> m_height Texture_default = 0) \<and>
   get Texture_default 5 7 = Some (vec 1 0 1) \<and>
   sample (\<lambda>p. 0) Texture_default (Fin (- 1 / 4)) (Fin 3) = Some (vec 1 0 1)"
proof -
  have z: "m_width Texture_default = 0 \<or> m_height Texture_default = 0"
    by (simp add: Texture_default_def)
  from sample_zero_sized_sentinel[OF z, of "\<lambda>p. 0" "- 1 / 4" 3] z show ?thesis
    by blast
qed
subsection \<open>C10: the pillar\<close>

text \<open>
  The constant \<^verbatim>\<open>M_PI\<close> and the step of the vertex loop as the program stores them, and
  one turn of the loop.
\<close>

lemma M_PI_eval: "M_PI = 884279719003555 / 2 ^ 48"
  by (simp add: M_PI_def round64_pos_exp[where n=1] rne_def)

lemma pillar_step_eval: "pillar_step = 4392265 / 2 ^ 23"
  by (simp add: pillar_step_def pillar_segments_def M_PI_eval round64_neg_exp[where n=1]
        round32_eval rne_def)

lemma pillar_verts_step:
  "a < M_PI * 2 \<Longrightarrow>
   pillar_verts x y radius ustep a u m =
     pillar_verts x y radius ustep (round32 (a + pillar_step)) (u + ustep)
       (addVert (Vec3_xyz (cosf (Fin a) * radius + x) (sinf (Fin a) * radius + y) (Fin 0)) u m)"
  by (subst pillar_verts.simps) simp

lemma pillar_verts_stop:
  "\<not> a < M_PI * 2 \<Longrightarrow> pillar_verts x y radius ustep a u m = Some m"
  by (subst pillar_verts.simps) simp

text \<open>
  From the angle 0 the loop ends, after 13 turns: the twelfth sum is rounded to
  \<open>105414344 / 2 ^ 24\<close>, which is less than \<^verbatim>\<open>M_PI * 2.0f\<close>, so a thirteenth vertex is added
  at that angle.
\<close>

lemma pillar_verts_from_zero:
  "pillar_verts X Y R us 0 u m =
     Some (snd (fold (\<lambda>a (u, m).
                  (u + us,
                   addVert (Vec3_xyz (cosf (Fin a) * R + X) (sinf (Fin a) * R + Y) (Fin 0)) u m))
     [0, 8784530 / 2 ^ 24, 17569060 / 2 ^ 24, 26353590 / 2 ^ 24, 35138120 / 2 ^ 24,
      43922648 / 2 ^ 24, 52707176 / 2 ^ 24, 61491704 / 2 ^ 24, 70276232 / 2 ^ 24,
      79060760 / 2 ^ 24, 87845288 / 2 ^ 24, 96629816 / 2 ^ 24, 105414344 / 2 ^ 24]
     (u, m)))"
  by (simp add: pillar_verts_step pillar_verts_stop M_PI_eval pillar_step_eval round32_eval rne_def)

lemma fold_addVert_keeps:
  "position (snd (fold (\<lambda>a (u, m). (u + us, addVert (V a) u m)) as (u, m))) = position m \<and>
   indices (snd (fold (\<lambda>a (u, m). (u + us, addVert (V a) u m)) as (u, m))) = indices m"
  by (induction as arbitrary: u m) simp_all

lemma fold_addVert_vertices:
  "map vert_pos (vertices (snd (fold (\<lambda>a (u, m). (u + us, addVert (V a) u m)) as (u, m)))) =
     map vert_pos (vertices m) @ map V as"
  by (induction as arbitrary: u m) (simp_all add: addVert_def)

lemma fold_addIndex_keeps:
  "position (fold (\<lambda>i. addIndex (Suc i) \<circ> addIndex i) xs m) = position m \<and>
   vertices (fold (\<lambda>i. addIndex (Suc i) \<circ> addIndex i) xs m) = vertices m"
  by (induction xs arbitrary: m) simp_all

lemma pillar_indices_keeps:
  "position (pillar_indices n m) = position m \<and> vertices (pillar_indices n m) = vertices m"
  by (simp add: pillar_indices_def fold_addIndex_keeps)

lemma pillar_indices_eval:
  "indices (pillar_indices 11 m) =
     indices m @ [0, 1, 1, 2, 2, 3, 3, 4, 4, 5, 5, 6, 6, 7, 7, 8, 8, 9, 9, 10, 10, 11]"
proof -
  have u: "[0..<11] = [0, 1, 2, 3, 4, 5, 6, 7, 8, 9, 10]"
    by (simp add: upt_rec)
  show ?thesis
    by (simp add: pillar_indices_def u addIndex_def)
qed

text \<open>
  The model that \<^verbatim>\<open>Pillar(x, y, r)\<close> builds: its position, its index list, and its 13
  vertices, which are the points of the circle of radius \<open>r\<close> about \<open>(x, y)\<close> at the angles of
  the loop. The index list does not mention the last vertex.
\<close>

lemma Pillar_from_verts:
  "pillar_verts X Y R (Fin (M_PI * 2) * R / Fin (real pillar_segments / 2)) 0 (Fin 0)
     (set_position_xy X Y Model_new) = Some m1 \<Longrightarrow>
   Pillar X Y R = Some (addIndex 11 (addIndex 0 (pillar_indices 11 m1)))"
  by (simp add: Pillar_def Let_def pillar_segments_def)

lemma Pillar_model:
  "\<exists>m. Pillar (Fin x) (Fin y) (Fin r) = Some m \<and>
       position m = vec x y 0 \<and>
       indices m = [0, 1, 1, 2, 2, 3, 3, 4, 4, 5, 5, 6, 6, 7, 7, 8, 8, 9, 9, 10, 10, 11, 0, 11] \<and>
       map vert_pos (vertices m) = map (circle_point x y r)
         [0, 8784530 / 2 ^ 24, 17569060 / 2 ^ 24, 26353590 / 2 ^ 24, 35138120 / 2 ^ 24,
         43922648 / 2 ^ 24, 52707176 / 2 ^ 24, 61491704 / 2 ^ 24, 70276232 / 2 ^ 24,
         79060760 / 2 ^ 24, 87845288 / 2 ^ 24, 96629816 / 2 ^ 24, 105414344 / 2 ^ 24]"
proof -
  define us where "us = Fin (M_PI * 2) * Fin r / Fin (real pillar_segments / 2)"
  define m0 where "m0 = set_position_xy (Fin x) (Fin y) Model_new"
  define m1 where "m1 = snd (fold (\<lambda>a (u, m). (u + us, addVert (circle_point x y r a) u m))
         [0, 8784530 / 2 ^ 24, 17569060 / 2 ^ 24, 26353590 / 2 ^ 24, 35138120 / 2 ^ 24,
         43922648 / 2 ^ 24, 52707176 / 2 ^ 24, 61491704 / 2 ^ 24, 70276232 / 2 ^ 24,
         79060760 / 2 ^ 24, 87845288 / 2 ^ 24, 96629816 / 2 ^ 24, 105414344 / 2 ^ 24]
         (Fin 0, m0))"
  have V: "Vec3_xyz (cosf (Fin a) * Fin r + Fin x) (sinf (Fin a) * Fin r + Fin y) (Fin 0)
             = circle_point x y r a" for a
    by (simp add: circle_point_def vec_defs)
  have "pillar_verts (Fin x) (Fin y) (Fin r) us 0 (Fin 0) m0 = Some m1"
    unfolding pillar_verts_from_zero V m1_def ..
  from Pillar_from_verts[OF this[unfolded us_def m0_def]]
  have P: "Pillar (Fin x) (Fin y) (Fin r) = Some (addIndex 11 (addIndex 0 (pillar_indices 11 m1)))" .
  have k: "position m1 = position m0 \<and> indices m1 = indices m0"
    unfolding m1_def by (rule fold_addVert_keeps)
  have v: "map vert_pos (vertices m1) = map vert_pos (vertices m0) @ map (circle_point x y r)
         [0, 8784530 / 2 ^ 24, 17569060 / 2 ^ 24, 26353590 / 2 ^ 24, 35138120 / 2 ^ 24,
         43922648 / 2 ^ 24, 52707176 / 2 ^ 24, 61491704 / 2 ^ 24, 70276232 / 2 ^ 24,
         79060760 / 2 ^ 24, 87845288 / 2 ^ 24, 96629816 / 2 ^ 24, 105414344 / 2 ^ 24]"
    unfolding m1_def by (rule fold_addVert_vertices)
  have z: "position m0 = vec x y 0" "indices m0 = []" "vertices m0 = []"
    by (simp_all add: m0_def set_position_xy_def Model_new_def vec_defs)
  have 1: "position (addIndex 11 (addIndex 0 (pillar_indices 11 m1))) = vec x y 0"
    by (simp add: pillar_indices_keeps k z)
  have 2: "indices (addIndex 11 (addIndex 0 (pillar_indices 11 m1))) =
      [0, 1, 1, 2, 2, 3, 3, 4, 4, 5, 5, 6, 6, 7, 7, 8, 8, 9, 9, 10, 10, 11, 0, 11]"
    by (simp add: addIndex_def pillar_indices_eval k z)
  have 3: "map vert_pos (vertices (addIndex 11 (addIndex 0 (pillar_indices 11 m1)))) =
      map (circle_point x y r)
         [0, 8784530 / 2 ^ 24, 17569060 / 2 ^ 24, 26353590 / 2 ^ 24, 35138120 / 2 ^ 24,
         43922648 / 2 ^ 24, 52707176 / 2 ^ 24, 61491704 / 2 ^ 24, 70276232 / 2 ^ 24,
         79060760 / 2 ^ 24, 87845288 / 2 ^ 24, 96629816 / 2 ^ 24, 105414344 / 2 ^ 24]"
    using v by (simp add: pillar_indices_keeps z)
  from P 1 2 3 show ?thesis
    by (intro exI[of _ "addIndex 11 (addIndex 0 (pillar_indices 11 m1))"] conjI)
qed

lemma circle_point_shift:
  "vadd (circle_point x y r a) (vec x y 0) = circle_point (2 * x) (2 * y) r a"
  by (simp add: circle_point_def vec_defs)

lemma circle_point_distance:
  "vlength (vsub (circle_point c1 c2 r a) (vec c1 c2 0)) = Fin \<bar>r\<bar>"
proof -
  have "(cos a * r)\<^sup>2 + (sin a * r)\<^sup>2 = ((sin a)\<^sup>2 + (cos a)\<^sup>2) * r\<^sup>2"
    unfolding power_mult_distrib by (simp only: distrib_right add.commute)
  also have "\<dots> = r\<^sup>2"
    by simp
  finally have "sqrt ((cos a * r)\<^sup>2 + (sin a * r)\<^sup>2) = \<bar>r\<bar>"
    by simp
  then show ?thesis
    by (simp add: circle_point_def vlength_def vec_defs power2_eq_square not_less)
qed

text \<open>
  Claim C10. For every \<^verbatim>\<open>Pillar\<close> constructed with centre \<open>(x, y)\<close> and radius \<open>r \<ge> 0\<close>, the
  constructor returns, the flattening of \<^verbatim>\<open>onDraw\<close> (local vertex position plus model
  position) succeeds and yields twelve segments, and each endpoint of each of them lies at
  distance \<open>r\<close> from \<open>(2x, 2y)\<close>: the constructor puts the centre into the local vertex
  coordinates and also stores it as the position of the model, so the translation is
  applied twice. The first endpoint is \<open>(r + 2x, 2y)\<close>, at distance
  \<open>sqrt ((r + x)\<^sup>2 + y\<^sup>2)\<close> from \<open>(x, y)\<close>. (The coordinates are computed exactly; the
  vertex loop runs on the rounded angle and makes 13 vertices, of which the index list
  uses the first twelve.)
\<close>

theorem Pillar_endpoints_about_doubled_centre:
  assumes r: "0 \<le> r"
  shows "\<exists>m ls. Pillar (Fin x) (Fin y) (Fin r) = Some m \<and>
           create_lines [m] = Some ls \<and> length ls = 12 \<and>
           (\<forall>l \<in> set ls.
              vlength (vsub (ln_a l) (vec (2 * x) (2 * y) 0)) = Fin r \<and>
              vlength (vsub (ln_b l) (vec (2 * x) (2 * y) 0)) = Fin r) \<and>
           ln_a (hd ls) = vec (r + 2 * x) (2 * y) 0 \<and>
           vlength (vsub (ln_a (hd ls)) (vec x y 0)) = Fin (sqrt ((r + x)\<^sup>2 + y\<^sup>2))"
proof -
  from Pillar_model[of x y r] obtain m where
    P: "Pillar (Fin x) (Fin y) (Fin r) = Some m" and
    pos: "position m = vec x y 0" and
    ind: "indices m = [0, 1, 1, 2, 2, 3, 3, 4, 4, 5, 5, 6, 6, 7, 7, 8, 8, 9, 9, 10, 10, 11, 0, 11]" and
    vs: "map vert_pos (vertices m) = map (circle_point x y r)
         [0, 8784530 / 2 ^ 24, 17569060 / 2 ^ 24, 26353590 / 2 ^ 24, 35138120 / 2 ^ 24,
         43922648 / 2 ^ 24, 52707176 / 2 ^ 24, 61491704 / 2 ^ 24, 70276232 / 2 ^ 24,
         79060760 / 2 ^ 24, 87845288 / 2 ^ 24, 96629816 / 2 ^ 24, 105414344 / 2 ^ 24]"
    by (elim exE conjE)
  from arg_cong[OF vs, of length] have vlen: "length (vertices m) = 13"
    by simp
  have on_circle: "\<exists>a. vert_pos v = circle_point x y r a" if "v \<in> set (vertices m)" for v
  proof -
    from that have "vert_pos v \<in> set (map vert_pos (vertices m))"
      by simp
    then show ?thesis
      unfolding vs by auto
  qed
  have "vert_pos (vertices m ! 0) = map vert_pos (vertices m) ! 0"
    by (simp add: vlen)
  then have v0: "vert_pos (vertices m ! 0) = vec (r + x) y 0"
    unfolding vs by (simp add: circle_point_def vec_defs)
  have ev: "even (length (indices m))"
    by (simp add: ind)
  have bd: "\<forall>i \<in> set (indices m). i < length (vertices m)"
    by (simp add: ind vlen)
  from model_lines_defined[OF ev bd] obtain ls where
    ml: "model_lines m (indices m) = Some ls" and len: "length ls = length (indices m) div 2"
    by (elim exE conjE)
  have cl: "create_lines [m] = Some ls"
    by (simp add: ml)
  have n: "length ls = 12"
    by (simp add: len ind)
  have ends: "\<forall>l \<in> set ls.
              vlength (vsub (ln_a l) (vec (2 * x) (2 * y) 0)) = Fin r \<and>
              vlength (vsub (ln_b l) (vec (2 * x) (2 * y) 0)) = Fin r"
  proof
    fix l assume l: "l \<in> set ls"
    from model_lines_endpoints[OF ml l] obtain v w where
      v: "v \<in> set (vertices m)" "ln_a l = vadd (vert_pos v) (position m)" and
      w: "w \<in> set (vertices m)" "ln_b l = vadd (vert_pos w) (position m)"
      by (elim conjE bexE)
    from on_circle[OF v(1)] obtain a where
      a: "vert_pos v = circle_point x y r a" ..
    from on_circle[OF w(1)] obtain b where
      b: "vert_pos w = circle_point x y r b" ..
    have "vlength (vsub (ln_a l) (vec (2 * x) (2 * y) 0)) = Fin r"
      unfolding v(2) a pos circle_point_shift circle_point_distance using r by simp
    moreover have "vlength (vsub (ln_b l) (vec (2 * x) (2 * y) 0)) = Fin r"
      unfolding w(2) b pos circle_point_shift circle_point_distance using r by simp
    ultimately show "vlength (vsub (ln_a l) (vec (2 * x) (2 * y) 0)) = Fin r \<and>
                     vlength (vsub (ln_b l) (vec (2 * x) (2 * y) 0)) = Fin r" ..
  qed
  have "ln_a (hd ls) = vadd (vert_pos (vertices m ! 0)) (position m)"
    using ml unfolding ind
    by (auto simp add: Let_def vlen split: if_splits)
  then have first: "ln_a (hd ls) = vec (r + 2 * x) (2 * y) 0"
    unfolding v0 pos by (simp add: vec_defs)
  have away: "vlength (vsub (ln_a (hd ls)) (vec x y 0)) = Fin (sqrt ((r + x)\<^sup>2 + y\<^sup>2))"
    unfolding first by (simp add: vlength_def vec_defs power2_eq_square not_less add.commute)
  from P cl n ends first away show ?thesis
    by (intro exI[of _ m] exI[of _ ls] conjI)
qed

text \<open>
  The pillar of radius 1 about \<open>(1, 0)\<close>: its first endpoint is \<open>(3, 0)\<close>, at distance 1 from
  \<open>(2, 0)\<close> and at distance 2 from the centre \<open>(1, 0)\<close> that was asked for.
\<close>

theorem Pillar_endpoints_about_doubled_centre_witness:
  "(0::real) \<le> 1 \<and>
   Pillar (Fin 1) (Fin 0) (Fin 1) \<noteq> None \<and>
   length (the (create_lines [the (Pillar (Fin 1) (Fin 0) (Fin 1))])) = 12 \<and>
   ln_a (hd (the (create_lines [the (Pillar (Fin 1) (Fin 0) (Fin 1))]))) = vec 3 0 0 \<and>
   vlength (vsub (ln_a (hd (the (create_lines [the (Pillar (Fin 1) (Fin 0) (Fin 1))]))))
     (vec 2 0 0)) = Fin 1 \<and>
   vlength (vsub (ln_a (hd (the (create_lines [the (Pillar (Fin 1) (Fin 0) (Fin 1))]))))
     (vec 1 0 0)) = Fin 2"
proof -
  have p: "(0::real) \<le> 1" by simp
  from Pillar_endpoints_about_doubled_centre[OF p, of 1 0] obtain m ls where
    P: "Pillar (Fin 1) (Fin 0) (Fin 1) = Some m" and
    c: "create_lines [m] = Some ls" and
    n: "length ls = 12" and
    e: "\<forall>l \<in> set ls.
          vlength (vsub (ln_a l) (vec (2 * 1) (2 * 0) 0)) = Fin 1 \<and>
          vlength (vsub (ln_b l) (vec (2 * 1) (2 * 0) 0)) = Fin 1" and
    f: "ln_a (hd ls) = vec (1 + 2 * 1) (2 * 0) 0" and
    a: "vlength (vsub (ln_a (hd ls)) (vec 1 0 0)) = Fin (sqrt ((1 + 1)\<^sup>2 + 0\<^sup>2))"
    by (elim exE conjE)
  from n have "hd ls \<in> set ls"
    by (cases ls) simp_all
  from e[rule_format, OF this] have d: "vlength (vsub (ln_a (hd ls)) (vec 2 0 0)) = Fin 1"
    by simp
  have s: "sqrt ((1 + 1)\<^sup>2 + 0\<^sup>2) = (2::real)"
    by simp
  from p n f a d show ?thesis
    unfolding P option.sel c s by simp
qed

end
